theory Spec2Isabelle
  imports Main
begin

section \<open>The remote API as seen by \<^verbatim>\<open>src/commands/apps.js\<close>\<close>

text \<open>
  The module is a sequence of awaited HTTP calls with branching on the replies and
  printing in between. The embedding makes both effects explicit: a run carries a
  \<open>state\<close> holding the requests sent so far (in order) and the lines printed so far
  (in order). The platform, the random generators and the session helpers imported from
  \<^verbatim>\<open>./auth.js\<close> and \<^verbatim>\<open>./commons.js\<close> are parameters, collected in \<open>env\<close>.

  Strings are \<open>char list\<close>; \<^verbatim>\<open>chalk\<close> colours only wrap the text in terminal escape
  codes and are dropped. Replies are typed per endpoint as the API describes them; a
  field the code guards (\<^verbatim>\<open>?.\<close>, \<^verbatim>\<open>!x\<close>) is an \<open>option\<close>, and a body that parses
  to \<^verbatim>\<open>null\<close> is \<open>None\<close>.
\<close>

subsection \<open>Requests\<close>

text \<open>The \<^verbatim>\<open>args\<close> member of the body posted to \<^verbatim>\<open>/drivers/call\<close>.\<close>

datatype args =
    CreateAppArgs string string string string
      \<comment> \<open>\<^verbatim>\<open>{object: {name, index_url, title, description, ...}, options: {dedupe_name: true}}\<close>\<close>
  | UpdateAppArgs string string string
      \<comment> \<open>\<^verbatim>\<open>{id: {name}, object: {index_url, title}}\<close>\<close>
  | IdName string
      \<comment> \<open>\<^verbatim>\<open>{id: {name}}\<close>\<close>
  | IdSubdomain string
      \<comment> \<open>\<^verbatim>\<open>{id: {subdomain}}\<close>\<close>
  | SubdomainObject string string
      \<comment> \<open>\<^verbatim>\<open>{object: {subdomain, root_dir}}\<close>\<close>
  | NoArgs
      \<comment> \<open>\<^verbatim>\<open>{}\<close>\<close>

datatype request =
    DriversCall string string args
      \<comment> \<open>POST \<^verbatim>\<open>${API_BASE}/drivers/call\<close> with \<^verbatim>\<open>{interface, method, args}\<close>\<close>
  | Mkdir string string
      \<comment> \<open>POST \<^verbatim>\<open>${API_BASE}/mkdir\<close> with \<^verbatim>\<open>{parent, path, overwrite: true, ...}\<close>\<close>
  | DeleteSite string
      \<comment> \<open>POST \<^verbatim>\<open>${API_BASE}/delete-site\<close> with \<^verbatim>\<open>{site_uuid}\<close>\<close>

subsection \<open>Replies\<close>

text \<open>A thrown JavaScript error, with its \<^verbatim>\<open>message\<close>.\<close>

datatype exn = Error string

text \<open>
  What \<^verbatim>\<open>await fetch(...)\<close> gives: the promise rejects (\<open>Inl\<close>), or there is a
  response with \<^verbatim>\<open>ok\<close>, \<^verbatim>\<open>status\<close> and a body; \<^verbatim>\<open>await response.json()\<close>
  rejects (\<open>Inl\<close>) or gives the parsed body, \<open>None\<close> when it is \<^verbatim>\<open>null\<close>.
\<close>

record 'a response =
  ok :: bool
  status :: nat
  json :: "exn + 'a option"

type_synonym 'a fetched = "exn + 'a response"

record api_error =
  code :: string
  message :: string

text \<open>The body of a \<^verbatim>\<open>/drivers/call\<close> reply: \<^verbatim>\<open>{success, result?, error?}\<close>.\<close>

record 'r driver_data =
  success :: bool
  result :: "'r option"
  error :: "api_error option"

record owner_obj =
  username :: string

record root_dir_obj =
  path :: string

record app_obj =
  uid :: string
  name :: string
  title :: string
  created_at :: string
  index_url :: string
  owner :: owner_obj

record subdomain_obj =
  uid :: string
  subdomain :: string
  owner :: owner_obj
  root_dir :: "root_dir_obj option"

text \<open>The body of a \<^verbatim>\<open>/mkdir\<close> reply: \<^verbatim>\<open>{uid, name}\<close>.\<close>

record dir_obj =
  uid :: "string option"
  name :: "string option"

subsection \<open>Environment and state\<close>

text \<open>
  Each endpoint answers a request knowing every request sent before it, so any
  deterministic server is covered. \<open>subdomain_select\<close> answers \<^verbatim>\<open>puter-subdomains\<close>
  \<^verbatim>\<open>select\<close>, whose result is \<open>Some\<close> list exactly when it is an array;
  \<open>subdomain_call\<close> answers \<^verbatim>\<open>create\<close> and \<^verbatim>\<open>delete\<close>. The body of
  \<^verbatim>\<open>/delete-site\<close> is read only through \<^verbatim>\<open>Object.keys\<close>, so it is its list of keys.
  \<open>generateAppName\<close> and \<open>randomUUID\<close> are the values the two generators return in
  this run (each is called at most once per command).
\<close>

record env =
  app_call :: "request list \<Rightarrow> request \<Rightarrow> app_obj driver_data fetched"
  subdomain_select :: "request list \<Rightarrow> request \<Rightarrow> subdomain_obj list driver_data fetched"
  subdomain_call :: "request list \<Rightarrow> request \<Rightarrow> subdomain_obj driver_data fetched"
  mkdir_call :: "request list \<Rightarrow> request \<Rightarrow> dir_obj fetched"
  delete_site_call :: "request list \<Rightarrow> request \<Rightarrow> string list fetched"
  getCurrentUserName :: string
  getCurrentDirectory :: string
  resolvePath :: "string \<Rightarrow> string \<Rightarrow> string"
  generateAppName :: string
  randomUUID :: string
  toLocaleString :: "string \<Rightarrow> string"

datatype line = Stdout string | Stderr string

record state =
  calls :: "request list"
  out :: "line list"

definition fetch :: "(request list \<Rightarrow> request \<Rightarrow> 'a) \<Rightarrow> request \<Rightarrow> state \<Rightarrow> 'a \<times> state" where
  "fetch endpoint r s = (endpoint (calls s) r, s\<lparr>calls := calls s @ [r]\<rparr>)"

definition console_log :: "string \<Rightarrow> state \<Rightarrow> state" where
  "console_log t s = s\<lparr>out := out s @ [Stdout t]\<rparr>"

definition console_error :: "string \<Rightarrow> state \<Rightarrow> state" where
  "console_error t s = s\<lparr>out := out s @ [Stderr t]\<rparr>"

text \<open>\<^verbatim>\<open>await response.json()\<close> on the outcome of a fetch.\<close>

definition await_json :: "'a fetched \<Rightarrow> exn + 'a option" where
  "await_json r = (case r of Inl err \<Rightarrow> Inl err | Inr response \<Rightarrow> json response)"

text \<open>
  The same after \<^verbatim>\<open>if (!response.ok) throw new Error(msg)\<close>, as \<^verbatim>\<open>getSubdomains\<close>,
  \<^verbatim>\<open>hostDirectory\<close> and \<^verbatim>\<open>deleteSite\<close> do.
\<close>

definition await_ok_json :: "('a response \<Rightarrow> string) \<Rightarrow> 'a fetched \<Rightarrow> exn + 'a option" where
  "await_ok_json msg r =
     (case r of
        Inl err \<Rightarrow> Inl err
      | Inr response \<Rightarrow> if \<not> ok response then Inl (Error (msg response)) else json response)"

subsection \<open>JavaScript strings\<close>

text \<open>The TypeError of reading a property of \<^verbatim>\<open>null\<close> or \<^verbatim>\<open>undefined\<close> (Node's wording).\<close>

definition cannot_read :: "string \<Rightarrow> string \<Rightarrow> exn" where
  "cannot_read what prop =
     Error (''Cannot read properties of '' @ what @ '' (reading '' @ [CHR 0x27] @ prop @ [CHR 0x27] @ '')'')"

text \<open>A possibly \<^verbatim>\<open>undefined\<close> string inside a template literal.\<close>

definition js_str :: "string option \<Rightarrow> string" where
  "js_str v = (case v of None \<Rightarrow> ''undefined'' | Some t \<Rightarrow> t)"

definition dq :: "string \<Rightarrow> string" where
  "dq t = [CHR 0x22] @ t @ [CHR 0x22]"

definition nl :: string where
  "nl = [CHR 0x0A]"

text \<open>\<^verbatim>\<open>t.split(c)\<close> for a one-character separator: never empty.\<close>

fun js_split :: "char \<Rightarrow> string \<Rightarrow> string list" where
  "js_split c [] = [[]]"
| "js_split c (x # xs) =
     (if x = c then [] # js_split c xs
      else (case js_split c xs of [] \<Rightarrow> [[x]] | seg # segs \<Rightarrow> (x # seg) # segs))"

definition startsWith :: "string \<Rightarrow> string \<Rightarrow> bool" where
  "startsWith t p = (take (length p) t = p)"

text \<open>A natural number in a template literal.\<close>

fun show_nat :: "nat \<Rightarrow> string" where
  "show_nat n =
     (if n < 10 then [char_of (48 + n)] else show_nat (n div 10) @ [char_of (48 + n mod 10)])"

text \<open>
  \<^verbatim>\<open>deleteSubdomain\<close> is written for an array of identifiers but both callers in this
  file hand it one string. JavaScript accepts either: \<^verbatim>\<open>.length\<close> of a string is its
  number of characters and \<^verbatim>\<open>for ... of\<close> over a string yields its characters, each
  as a one-character string.
\<close>

datatype js_arg = Arr "string list" | Str string

fun js_length :: "js_arg \<Rightarrow> nat" where
  "js_length (Arr xs) = length xs"
| "js_length (Str t) = length t"

fun js_items :: "js_arg \<Rightarrow> string list" where
  "js_items (Arr xs) = xs"
| "js_items (Str t) = map (\<lambda>c. [c]) t"

section \<open>Subdomains\<close>

definition delete_request :: "string \<Rightarrow> request" where
  "delete_request subdomainId = DriversCall ''puter-subdomains'' ''delete'' (IdSubdomain subdomainId)"

text \<open>
  The \<^verbatim>\<open>try\<close> block of \<^verbatim>\<open>deleteSubdomain\<close> for one identifier: it throws (\<open>Inl\<close>),
  returns a value from the function (\<open>Inr (Some b)\<close>) or runs to its end (\<open>Inr None\<close>).
\<close>

definition deleteSubdomain_try :: "env \<Rightarrow> string \<Rightarrow> state \<Rightarrow> (exn + bool option) \<times> state" where
  "deleteSubdomain_try e subdomainId s =
     (case fetch (subdomain_call e) (delete_request subdomainId) s of
        (response, s1) \<Rightarrow>
          (case await_json response of
             Inl err \<Rightarrow> (Inl err, s1)
           | Inr None \<Rightarrow> (Inl (cannot_read ''null'' ''success''), s1)
           | Inr (Some data) \<Rightarrow>
               if \<not> success data then
                 (if map_option code (error data) = Some ''entity_not_found''
                  then (Inr (Some False),
                        console_log (''Subdomain ID: '' @ dq subdomainId @ '' not found'') s1)
                  else (Inr (Some False),
                        console_log (''Failed to delete subdomain: ''
                                       @ js_str (map_option message (error data))) s1))
               else (Inr None, console_log ''Subdomain deleted successfully'' s1)))"

text \<open>
  The \<^verbatim>\<open>for ... of\<close> loop. Its body is the \<^verbatim>\<open>try ... catch\<close> statement alone (the loop
  has no braces), so a caught error goes on to the next identifier, and
  \<^verbatim>\<open>return true\<close> is the statement after the loop.
\<close>

fun deleteSubdomain_loop :: "env \<Rightarrow> string list \<Rightarrow> state \<Rightarrow> bool \<times> state" where
  "deleteSubdomain_loop e [] s = (True, s)"
| "deleteSubdomain_loop e (subdomainId # rest) s =
     (case deleteSubdomain_try e subdomainId s of
        (Inl (Error msg), s1) \<Rightarrow>
          deleteSubdomain_loop e rest (console_error (''Error deleting subdomain: '' @ msg) s1)
      | (Inr (Some b), s1) \<Rightarrow> (b, s1)
      | (Inr None, s1) \<Rightarrow> deleteSubdomain_loop e rest s1)"

definition deleteSubdomain :: "env \<Rightarrow> js_arg \<Rightarrow> state \<Rightarrow> bool \<times> state" where
  "deleteSubdomain e args s =
     (if js_length args < 1
      then (False, console_log ''Usage: domain:delete <subdomain_id>'' s)
      else deleteSubdomain_loop e (js_items args) s)"

section \<open>Sites\<close>

text \<open>
  The \<^verbatim>\<open>try\<close> block of \<^verbatim>\<open>deleteSite\<close> for one site: \<^verbatim>\<open>deleteSubdomain(uuid)\<close>
  receives the string itself. \<^verbatim>\<open>Object.keys(data)\<close> is evaluated only when the
  release reported success, and throws on \<^verbatim>\<open>null\<close>.
\<close>

definition deleteSite_try :: "env \<Rightarrow> string \<Rightarrow> state \<Rightarrow> (exn + unit) \<times> state" where
  "deleteSite_try e uuid s =
     (case fetch (delete_site_call e) (DeleteSite uuid) s of
        (response, s1) \<Rightarrow>
          (case await_ok_json
                  (\<lambda>r. ''Failed to delete site (Status: '' @ show_nat (status r) @ '')'') response of
             Inl err \<Rightarrow> (Inl err, s1)
           | Inr data \<Rightarrow>
               (case deleteSubdomain e (Str uuid) s1 of
                  (result', s2) \<Rightarrow>
                    if result' then
                      (case data of
                         None \<Rightarrow> (Inl (Error ''Cannot convert undefined or null to object''), s2)
                       | Some keys \<Rightarrow>
                           (Inr (),
                            console_log (''Site ID: '' @ dq uuid @ '' may already be deleted!'')
                              (if length keys = 0
                               then console_log (''Site ID: '' @ dq uuid @ '' should be deleted.'') s2
                               else s2)))
                    else (Inr (),
                          console_log (''Site ID: '' @ dq uuid @ '' may already be deleted!'') s2))))"

fun deleteSite_loop :: "env \<Rightarrow> string list \<Rightarrow> state \<Rightarrow> state" where
  "deleteSite_loop e [] s = s"
| "deleteSite_loop e (uuid # rest) s =
     (case deleteSite_try e uuid s of
        (Inl (Error msg), s1) \<Rightarrow>
          deleteSite_loop e rest (console_error (''Error deleting site: '' @ msg) s1)
      | (Inr _, s1) \<Rightarrow> deleteSite_loop e rest s1)"

definition deleteSite :: "env \<Rightarrow> string list \<Rightarrow> state \<Rightarrow> state" where
  "deleteSite e args s =
     (if length args < 1 then console_log ''Usage: site:delete <siteUUID>'' s
      else deleteSite_loop e args s)"

section \<open>Deployment\<close>

definition select_request :: request where
  "select_request = DriversCall ''puter-subdomains'' ''select'' NoArgs"

definition getSubdomains ::
  "env \<Rightarrow> state \<Rightarrow> (exn + subdomain_obj list driver_data option) \<times> state" where
  "getSubdomains e s =
     (case fetch (subdomain_select e) select_request s of
        (response, s1) \<Rightarrow> (await_ok_json (\<lambda>r. ''Failed to fetch subdomains.'') response, s1))"

definition host_request :: "string \<Rightarrow> string \<Rightarrow> request" where
  "host_request subdomain' dir =
     DriversCall ''puter-subdomains'' ''create'' (SubdomainObject subdomain' dir)"

text \<open>\<^verbatim>\<open>hostDirectory\<close> returns \<^verbatim>\<open>data.result\<close>, which may be \<^verbatim>\<open>undefined\<close>.\<close>

definition hostDirectory ::
  "env \<Rightarrow> string \<Rightarrow> string \<Rightarrow> state \<Rightarrow> (exn + subdomain_obj option) \<times> state" where
  "hostDirectory e subdomain' dir s =
     (case fetch (subdomain_call e) (host_request subdomain' dir) s of
        (response, s1) \<Rightarrow>
          (case await_ok_json (\<lambda>r. ''Failed to host directory.'') response of
             Inl err \<Rightarrow> (Inl err, s1)
           | Inr None \<Rightarrow> (Inl (cannot_read ''null'' ''result''), s1)
           | Inr (Some data) \<Rightarrow> (Inr (result data), s1)))"

text \<open>
  \<^verbatim>\<open>args.find(arg => arg.startsWith('--subdomain='))?.split('=')[1]\<close>: the text between
  the first and the second \<^verbatim>\<open>=\<close> of the first such argument.
\<close>

definition subdomainOption :: "string list \<Rightarrow> string option" where
  "subdomainOption args =
     (case find (\<lambda>arg. startsWith arg ''--subdomain='') args of
        None \<Rightarrow> None
      | Some arg \<Rightarrow>
          (case js_split (CHR ''='') arg of
             _ # v # _ \<Rightarrow> Some v
           | _ \<Rightarrow> None))"

text \<open>
  The target directory: \<^verbatim>\<open>args[1]\<close> is falsy when it is missing or empty.
\<close>

definition remoteDir :: "env \<Rightarrow> string list \<Rightarrow> string" where
  "remoteDir e args =
     (case args of
        _ # a1 # _ \<Rightarrow>
          if a1 \<noteq> [] then
            (if startsWith a1 ''--'' then getCurrentDirectory e
             else resolvePath e (getCurrentDirectory e) a1)
          else getCurrentDirectory e
      | _ \<Rightarrow> getCurrentDirectory e)"

text \<open>Step 1 of \<^verbatim>\<open>deploySite\<close>: a non-empty option wins over the app name.\<close>

definition candidate :: "string \<Rightarrow> string list \<Rightarrow> string" where
  "candidate appName args =
     (case subdomainOption args of
        Some opt \<Rightarrow> if opt \<noteq> [] then opt else appName
      | None \<Rightarrow> appName)"

text \<open>Step 3: host the directory and report where.\<close>

definition deploySite_host ::
  "env \<Rightarrow> string \<Rightarrow> string \<Rightarrow> string \<Rightarrow> state \<Rightarrow> (exn + unit) \<times> state" where
  "deploySite_host e appName subdomain' dir s =
     (case hostDirectory e subdomain' dir
             (console_log (''Hosting app '' @ dq appName @ '' under subdomain '' @ dq subdomain' @ ''...'') s) of
        (Inl err, s1) \<Rightarrow> (Inl err, s1)
      | (Inr site, s1) \<Rightarrow>
          (let s2 = console_log (''App '' @ dq appName @ '' deployed successfully!'') s1
           in case site of
                None \<Rightarrow> (Inl (cannot_read ''undefined'' ''subdomain''), s2)
              | Some st \<Rightarrow>
                  (Inr (),
                   console_log (''Website hosted at: https://'' @ subdomain st @ ''.puter.site'') s2)))"

text \<open>
  The candidate is the current user's but linked to another directory: try to unlink
  it. \<^verbatim>\<open>deleteSubdomain(subdomainObj.uid)\<close> receives the string itself. When the
  release fails nothing returns, so control reaches step 3.
\<close>

definition deploySite_unlink ::
  "env \<Rightarrow> string \<Rightarrow> string \<Rightarrow> string \<Rightarrow> subdomain_obj \<Rightarrow> state \<Rightarrow> (exn + unit) \<times> state" where
  "deploySite_unlink e appName subdomain' dir subdomainObj s =
     (case deleteSubdomain e (Str (subdomain_obj.uid subdomainObj))
             (console_log
                (''We'' @ [CHR 0x27] @ ''ll try to unlink this subdomain from that directory...'')
                (console_log
                   (''However, It'' @ [CHR 0x27] @ ''s linked to different directory at: ''
                      @ js_str (map_option path (root_dir subdomainObj)))
                   s)) of
        (result', s1) \<Rightarrow>
          if result' then
            (Inr (),
             console_log ''Looks like this subdomain is free again, please try again.'' s1)
          else deploySite_host e appName subdomain' dir
                 (console_log ''Could not release this subdomain.'' s1))"

text \<open>
  Step 2, once the list is fetched. The \<^verbatim>\<open>else\<close> that generates a random name
  belongs to \<^verbatim>\<open>if (subdomainObj)\<close>: it runs when no entry has the candidate's name.
  An entry owned by somebody else only prints the first line and goes on to step 3.
\<close>

definition deploySite_check ::
  "env \<Rightarrow> string \<Rightarrow> string \<Rightarrow> string \<Rightarrow> subdomain_obj list \<Rightarrow> state \<Rightarrow> (exn + unit) \<times> state" where
  "deploySite_check e appName subdomain' dir subdomains s =
     (case find (\<lambda>sd. subdomain sd = subdomain') subdomains of
        Some subdomainObj \<Rightarrow>
          (let s1 = console_error
                      (''The subdomain '' @ dq subdomain' @ '' is already in use and owned by: ''
                         @ dq (username (subdomain_obj.owner subdomainObj))) s
           in if username (subdomain_obj.owner subdomainObj) = getCurrentUserName e then
                (let s2 = console_log
                            (''It'' @ [CHR 0x27] @ ''s yours, and linked to: ''
                               @ js_str (map_option path (root_dir subdomainObj))) s1
                 in if map_option path (root_dir subdomainObj) = Some dir then
                      (Inr (),
                       console_log (''https://'' @ subdomain' @ ''.puter.site'')
                         (console_log ''Which is already the selected directory, and deployed at:'' s2))
                    else deploySite_unlink e appName subdomain' dir subdomainObj s2)
              else deploySite_host e appName subdomain' dir s1)
      | None \<Rightarrow>
          (let s1 = console_log
                      (''The subdomain: '' @ dq subdomain'
                         @ '' is already taken, so let'' @ [CHR 0x27] @ ''s generate a new random one:'') s;
               generated = generateAppName e;
               s2 = console_log (''New generated subdomain: '' @ dq generated @ '' will be used.'') s1
           in deploySite_host e appName generated dir s2))"

definition deploySite_try ::
  "env \<Rightarrow> string \<Rightarrow> string \<Rightarrow> string \<Rightarrow> state \<Rightarrow> (exn + unit) \<times> state" where
  "deploySite_try e appName subdomain' dir s =
     (case getSubdomains e s of
        (Inl err, s1) \<Rightarrow> (Inl err, s1)
      | (Inr None, s1) \<Rightarrow> (Inl (cannot_read ''null'' ''success''), s1)
      | (Inr (Some data), s1) \<Rightarrow>
          (case (success data, result data) of
             (True, Some subdomains) \<Rightarrow> deploySite_check e appName subdomain' dir subdomains s1
           | _ \<Rightarrow> (Inl (Error ''Failed to fetch subdomains''), s1)))"

definition deploySite :: "env \<Rightarrow> string list \<Rightarrow> state \<Rightarrow> state" where
  "deploySite e args s =
     (case args of
        [] \<Rightarrow>
          console_log ''Example: deploy myapp --subdomain=myapp''
            (console_log ''Example: deploy myapp ./myapp''
              (console_log ''Example: deploy myapp''
                (console_log ''Usage: deploy <name> [<remote_dir>] [--subdomain=<subdomain>]'' s)))
      | appName # _ \<Rightarrow>
          (let dir = remoteDir e args;
               s0 = console_log (''Deploying app '' @ dq appName @ '' from '' @ dq dir @ ''...'' @ nl) s
           in case deploySite_try e appName (candidate appName args) dir s0 of
                (Inl (Error msg), s1) \<Rightarrow>
                  console_error (''Error: '' @ msg) (console_error ''Failed to deploy app.'' s1)
              | (Inr _, s1) \<Rightarrow> s1))"

section \<open>Apps\<close>

text \<open>\<^verbatim>\<open>!data || !data.success\<close>\<close>

definition unsuccessful :: "'r driver_data option \<Rightarrow> bool" where
  "unsuccessful d = (case d of None \<Rightarrow> True | Some x \<Rightarrow> \<not> success x)"

definition default_url :: string where
  "default_url = ''https://dev-center.puter.com/coming-soon.html''"

definition create_app_request :: "string \<Rightarrow> string \<Rightarrow> string \<Rightarrow> request" where
  "create_app_request name' description url =
     DriversCall ''puter-apps'' ''create'' (CreateAppArgs name' url name' description)"

definition mkdir_request :: "string \<Rightarrow> string \<Rightarrow> string \<Rightarrow> request" where
  "mkdir_request username' appUid uid' =
     Mkdir (''/'' @ username' @ ''/AppData/'' @ appUid) (''app-'' @ uid')"

text \<open>\<^verbatim>\<open>uid.split('-')[0]\<close> and \<^verbatim>\<open>`${name}-${uid.split('-')[0]}`\<close>\<close>

definition first_segment :: "string \<Rightarrow> string" where
  "first_segment uid' = (case js_split (CHR ''-'') uid' of seg # _ \<Rightarrow> seg | [] \<Rightarrow> [])"

definition subdomainName :: "string \<Rightarrow> string \<Rightarrow> string" where
  "subdomainName name' uid' = name' @ ''-'' @ first_segment uid'"

definition update_app_request :: "string \<Rightarrow> string \<Rightarrow> request" where
  "update_app_request appName name' =
     DriversCall ''puter-apps'' ''update''
       (UpdateAppArgs appName (''https://'' @ appName @ ''.puter.site'') name')"

text \<open>Step 4: point the app's \<^verbatim>\<open>index_url\<close> at the site and report.\<close>

definition createApp_update ::
  "env \<Rightarrow> string \<Rightarrow> string \<Rightarrow> string \<Rightarrow> state \<Rightarrow> (exn + unit) \<times> state" where
  "createApp_update e name' appName sub s =
     (case fetch (app_call e) (update_app_request appName name')
             (console_log (''Set '' @ dq sub @ '' as a subdomain for app: '' @ dq appName @ ''...'' @ nl) s) of
        (response, s1) \<Rightarrow>
          (case await_json response of
             Inl err \<Rightarrow> (Inl err, s1)
           | Inr updateAppData \<Rightarrow>
               if unsuccessful updateAppData then
                 (Inr (), console_error (''Failed to update app '' @ dq name' @ '' with new subdomain'') s1)
               else
                 (Inr (),
                  console_log (''https://'' @ sub @ ''.puter.site'')
                    (console_log ''App deployed successfully at:'' s1))))"

text \<open>Step 3: the subdomain, bound to the directory just created.\<close>

definition createApp_subdomain ::
  "env \<Rightarrow> string \<Rightarrow> string \<Rightarrow> string \<Rightarrow> string \<Rightarrow> string \<Rightarrow> dir_obj \<Rightarrow> state
     \<Rightarrow> (exn + unit) \<times> state" where
  "createApp_subdomain e name' appUid appName username' uid' createDirData s =
     (let sub = subdomainName name' uid'
      in case fetch (subdomain_call e)
                (host_request sub
                   (''/'' @ username' @ ''/AppData/'' @ appUid @ ''/'' @ js_str (dir_obj.name createDirData)))
                (console_log (''Creating subdomain: '' @ dq sub @ ''...'' @ nl) s) of
           (response, s1) \<Rightarrow>
             (case await_json response of
                Inl err \<Rightarrow> (Inl err, s1)
              | Inr createSubdomainData \<Rightarrow>
                  if unsuccessful createSubdomainData then
                    (Inr (), console_error (''Failed to create subdomain: '' @ dq sub) s1)
                  else
                    createApp_update e name' appName sub
                      (console_log (''Subdomain: '' @ sub)
                         (console_log ''Subdomain created successfully!'' s1))))"

text \<open>
  Step 2: the directory. \<^verbatim>\<open>!createDirData.uid\<close> holds for a missing and for an empty
  \<^verbatim>\<open>uid\<close>.
\<close>

definition createApp_directory ::
  "env \<Rightarrow> string \<Rightarrow> string \<Rightarrow> string \<Rightarrow> string \<Rightarrow> state \<Rightarrow> (exn + unit) \<times> state" where
  "createApp_directory e name' appUid appName username' s =
     (let uid' = randomUUID e
      in case fetch (mkdir_call e) (mkdir_request username' appUid uid')
                (console_log
                   (''Creating directory for app '' @ dq name' @ '' with UID: '' @ dq uid' @ '' ...'' @ nl) s) of
           (response, s1) \<Rightarrow>
             (case await_json response of
                Inl err \<Rightarrow> (Inl err, s1)
              | Inr None \<Rightarrow>
                  (Inr (), console_error (''Failed to create directory for app '' @ dq name') s1)
              | Inr (Some createDirData) \<Rightarrow>
                  (case dir_obj.uid createDirData of
                     None \<Rightarrow>
                       (Inr (), console_error (''Failed to create directory for app '' @ dq name') s1)
                   | Some dirUid \<Rightarrow>
                       if dirUid = [] then
                         (Inr (), console_error (''Failed to create directory for app '' @ dq name') s1)
                       else
                         createApp_subdomain e name' appUid appName username' uid' createDirData
                           (console_log (''Directory UID: '' @ dirUid)
                              (console_log ''Directory created successfully!'' s1)))))"

text \<open>Step 1 and the whole \<^verbatim>\<open>try\<close> block.\<close>

definition createApp_try ::
  "env \<Rightarrow> string \<Rightarrow> string \<Rightarrow> string \<Rightarrow> state \<Rightarrow> (exn + unit) \<times> state" where
  "createApp_try e name' description url s =
     (case fetch (app_call e) (create_app_request name' description url) s of
        (response, s1) \<Rightarrow>
          (case await_json response of
             Inl err \<Rightarrow> (Inl err, s1)
           | Inr None \<Rightarrow> (Inr (), console_error (''Failed to create app '' @ dq name') s1)
           | Inr (Some createAppData) \<Rightarrow>
               if \<not> success createAppData then
                 (Inr (), console_error (''Failed to create app '' @ dq name') s1)
               else
                 (case result createAppData of
                    None \<Rightarrow> (Inl (cannot_read ''undefined'' ''uid''), s1)
                  | Some r \<Rightarrow>
                      (let appUid = app_obj.uid r;
                           appName = app_obj.name r;
                           username' = username (app_obj.owner r)
                       in createApp_directory e name' appUid appName username'
                            (console_log
                               (''AppName: '' @ appName @ nl @ ''UID: '' @ appUid @ nl
                                  @ ''Username: '' @ username')
                               (console_log (''App '' @ dq name' @ '' created successfully!'') s1))))))"

definition createApp :: "env \<Rightarrow> string \<Rightarrow> string \<Rightarrow> string \<Rightarrow> state \<Rightarrow> state" where
  "createApp e name' description url s =
     (case createApp_try e name' description url
             (console_log (''Creating app: '' @ dq name' @ ''...'' @ nl) s) of
        (Inl (Error msg), s1) \<Rightarrow>
          console_error (''Failed to create app '' @ dq name' @ ''.'' @ nl @ ''Error: '' @ msg) s1
      | (Inr _, s1) \<Rightarrow> s1)"

definition read_app_request :: "string \<Rightarrow> request" where
  "read_app_request name' = DriversCall ''puter-apps'' ''read'' (IdName name')"

definition delete_app_request :: "string \<Rightarrow> request" where
  "delete_app_request name' = DriversCall ''puter-apps'' ''delete'' (IdName name')"

definition dashes :: string where
  "dashes = replicate 40 (CHR ''-'')"

text \<open>Step 2 of \<^verbatim>\<open>deleteApp\<close>; neither outcome returns a value.\<close>

definition deleteApp_delete :: "env \<Rightarrow> string \<Rightarrow> state \<Rightarrow> (exn + bool option) \<times> state" where
  "deleteApp_delete e name' s =
     (case fetch (app_call e) (delete_app_request name')
             (console_log (''Deleting app '' @ dq name' @ ''...'') s) of
        (response, s1) \<Rightarrow>
          (case await_json response of
             Inl err \<Rightarrow> (Inl err, s1)
           | Inr None \<Rightarrow> (Inl (cannot_read ''null'' ''success''), s1)
           | Inr (Some deleteData) \<Rightarrow>
               if success deleteData then
                 (Inr None, console_log (''App '' @ dq name' @ '' deleted successfully!'') s1)
               else
                 (Inr None,
                  console_error
                    (''Failed to delete app '' @ dq name' @ ''.'' @ nl
                       @ ''P.S. You may need to provide the '' @ [CHR 0x27] @ ''name'' @ [CHR 0x27]
                       @ '' not the '' @ [CHR 0x27] @ ''title'' @ [CHR 0x27] @ ''.'') s1)))"

definition deleteApp_try :: "env \<Rightarrow> string \<Rightarrow> state \<Rightarrow> (exn + bool option) \<times> state" where
  "deleteApp_try e name' s =
     (case fetch (app_call e) (read_app_request name') s of
        (response, s1) \<Rightarrow>
          (case await_json response of
             Inl err \<Rightarrow> (Inl err, s1)
           | Inr None \<Rightarrow> (Inl (cannot_read ''null'' ''success''), s1)
           | Inr (Some readData) \<Rightarrow>
               (case (success readData, result readData) of
                  (True, Some r) \<Rightarrow>
                    deleteApp_delete e name'
                      (console_log dashes
                        (console_log (''URL: '' @ index_url r)
                          (console_log (''Created: '' @ toLocaleString e (created_at r))
                            (console_log (''Title: '' @ title r)
                              (console_log (''Name: '' @ app_obj.name r)
                                (console_log dashes
                                  (console_log (nl @ ''App Details:'') s1)))))))
                | _ \<Rightarrow>
                    (Inr (Some False), console_log (''App '' @ dq name' @ '' not found.'') s1))))"

text \<open>
  \<^verbatim>\<open>deleteApp\<close> returns \<^verbatim>\<open>false\<close> (\<open>Some False\<close>) or nothing (\<open>None\<close>): the
  \<^verbatim>\<open>return true\<close> and the other \<^verbatim>\<open>return false\<close> are commented out in the source.
\<close>

definition deleteApp :: "env \<Rightarrow> string \<Rightarrow> state \<Rightarrow> bool option \<times> state" where
  "deleteApp e name' s =
     (case deleteApp_try e name' (console_log (''Checking app '' @ dq name' @ ''...'' @ nl) s) of
        (Inl (Error msg), s1) \<Rightarrow>
          (None, console_error (''Failed to delete app '' @ dq name' @ ''.'' @ nl @ ''Error: '' @ msg) s1)
      | (Inr r, s1) \<Rightarrow> (r, s1))"

section \<open>Premises and example platforms\<close>

text \<open>
  The reply to a delete of this identifier, sent after the requests \<open>hist\<close>, parses to a
  body whose \<^verbatim>\<open>success\<close> is false: the case in which \<^verbatim>\<open>deleteSubdomain\<close> returns
  \<^verbatim>\<open>false\<close>.
\<close>

definition delete_failed :: "env \<Rightarrow> request list \<Rightarrow> string \<Rightarrow> bool" where
  "delete_failed e hist subdomainId =
     (case await_json (subdomain_call e hist (delete_request subdomainId)) of
        Inr (Some data) \<Rightarrow> \<not> success data
      | _ \<Rightarrow> False)"

text \<open>
  A platform on which every call succeeds, for user \<^verbatim>\<open>alice\<close> in \<^verbatim>\<open>/alice/Desktop\<close>, with
  no subdomain bound (\<open>demo_env\<close>), and variations of it: \<^verbatim>\<open>myapp\<close> is bound to somebody's
  directory (\<open>bound_env\<close>); it is bound and every delete is refused (\<open>stuck_env\<close>); the
  delete of \<^verbatim>\<open>id2\<close> is refused (\<open>flaky_env\<close>); no app is found (\<open>missing_app_env\<close>);
  \<^verbatim>\<open>/mkdir\<close> answers without a \<^verbatim>\<open>uid\<close> (\<open>no_dir_env\<close>); the platform renames the new
  app (\<open>dedupe_env\<close>).
\<close>

definition start :: state where
  "start = \<lparr>calls = [], out = []\<rparr>"

definition ok_response :: "'a \<Rightarrow> 'a fetched" where
  "ok_response body = Inr \<lparr>ok = True, status = 200, json = Inr (Some body)\<rparr>"

definition demo_app :: "string \<Rightarrow> app_obj" where
  "demo_app canonical =
     \<lparr>app_obj.uid = ''app-7'', name = canonical, title = ''app'', created_at = ''2024-05-01'',
      index_url = default_url, owner = \<lparr>username = ''alice''\<rparr>\<rparr>"

definition echo_site :: "request \<Rightarrow> subdomain_obj option" where
  "echo_site r =
     (case r of
        DriversCall _ _ (SubdomainObject sub dir) \<Rightarrow>
          Some \<lparr>subdomain_obj.uid = ''sd-new'', subdomain = sub, owner = \<lparr>username = ''alice''\<rparr>,
                root_dir = Some \<lparr>path = dir\<rparr>\<rparr>
      | _ \<Rightarrow> None)"

definition demo_env :: env where
  "demo_env =
     \<lparr>app_call = (\<lambda>hist r. ok_response \<lparr>success = True, result = Some (demo_app ''app''), error = None\<rparr>),
      subdomain_select = (\<lambda>hist r. ok_response \<lparr>success = True, result = Some [], error = None\<rparr>),
      subdomain_call = (\<lambda>hist r. ok_response \<lparr>success = True, result = echo_site r, error = None\<rparr>),
      mkdir_call = (\<lambda>hist r. ok_response \<lparr>dir_obj.uid = Some ''dir-1'', name = Some ''app-dir''\<rparr>),
      delete_site_call = (\<lambda>hist r. ok_response []),
      getCurrentUserName = ''alice'',
      getCurrentDirectory = ''/alice/Desktop'',
      resolvePath = (\<lambda>cwd p. cwd @ ''/'' @ p),
      generateAppName = ''lucky-otter-42'',
      randomUUID = ''1b4e28ba-2fa1-11d2-883f-0016d3cca427'',
      toLocaleString = (\<lambda>t. t)\<rparr>"

definition myapp_entry :: "string \<Rightarrow> string \<Rightarrow> subdomain_obj" where
  "myapp_entry who dir =
     \<lparr>subdomain_obj.uid = ''sd-1'', subdomain = ''myapp'', owner = \<lparr>username = who\<rparr>,
      root_dir = Some \<lparr>path = dir\<rparr>\<rparr>"

definition bound_env :: "string \<Rightarrow> string \<Rightarrow> env" where
  "bound_env who dir =
     demo_env\<lparr>subdomain_select :=
                (\<lambda>hist r. ok_response \<lparr>success = True, result = Some [myapp_entry who dir], error = None\<rparr>)\<rparr>"

definition not_found :: "subdomain_obj driver_data fetched" where
  "not_found =
     ok_response \<lparr>success = False, result = None,
                  error = Some \<lparr>code = ''entity_not_found'', message = ''Entity not found''\<rparr>\<rparr>"

definition stuck_env :: env where
  "stuck_env =
     (bound_env ''alice'' ''/alice/old'')\<lparr>subdomain_call :=
        (\<lambda>hist r. if echo_site r = None then not_found
                   else ok_response \<lparr>success = True, result = echo_site r, error = None\<rparr>)\<rparr>"

definition flaky_env :: env where
  "flaky_env =
     demo_env\<lparr>subdomain_call :=
        (\<lambda>hist r. if r = delete_request ''id2'' then not_found
                   else ok_response \<lparr>success = True, result = echo_site r, error = None\<rparr>)\<rparr>"

definition missing_app_env :: env where
  "missing_app_env =
     demo_env\<lparr>app_call :=
        (\<lambda>hist r. ok_response \<lparr>success = False, result = None,
                                 error = Some \<lparr>code = ''entity_not_found'', message = ''Entity not found''\<rparr>\<rparr>)\<rparr>"

definition no_dir_env :: env where
  "no_dir_env =
     demo_env\<lparr>mkdir_call := (\<lambda>hist r. ok_response \<lparr>dir_obj.uid = None, name = Some ''app-dir''\<rparr>)\<rparr>"

definition dedupe_env :: env where
  "dedupe_env =
     demo_env\<lparr>app_call :=
        (\<lambda>hist r. ok_response \<lparr>success = True, result = Some (demo_app ''app-1b4e28ba''), error = None\<rparr>)\<rparr>"

section \<open>Calls and output of the building blocks\<close>

lemma calls_console_log [simp]: "calls (console_log t s) = calls s"
  by (simp add: console_log_def)

lemma calls_console_error [simp]: "calls (console_error t s) = calls s"
  by (simp add: console_error_def)

lemma out_console_log [simp]: "out (console_log t s) = out s @ [Stdout t]"
  by (simp add: console_log_def)

lemma out_console_error [simp]: "out (console_error t s) = out s @ [Stderr t]"
  by (simp add: console_error_def)

section \<open>Deleting subdomains\<close>

lemma deleteSubdomain_try_calls [simp]:
  "calls (snd (deleteSubdomain_try e x s)) = calls s @ [delete_request x]"
  by (simp add: deleteSubdomain_try_def fetch_def split: sum.splits option.splits)

lemma deleteSubdomain_try_out:
  "\<exists>more. out (snd (deleteSubdomain_try e x s)) = out s @ more"
  by (simp add: deleteSubdomain_try_def fetch_def split: sum.splits option.splits)

lemma deleteSubdomain_try_fst:
  "calls s = calls t \<Longrightarrow> fst (deleteSubdomain_try e x s) = fst (deleteSubdomain_try e x t)"
  by (simp add: deleteSubdomain_try_def fetch_def split: sum.splits option.splits)

lemma deleteSubdomain_try_returns:
  "(\<exists>b. fst (deleteSubdomain_try e x s) = Inr (Some b)) = delete_failed e (calls s) x"
  by (auto simp add: deleteSubdomain_try_def fetch_def delete_failed_def split: sum.splits option.splits)

lemma deleteSubdomain_try_False:
  "fst (deleteSubdomain_try e x s) = Inr (Some b) \<Longrightarrow> b = False"
  by (auto simp add: deleteSubdomain_try_def fetch_def split: sum.splits option.splits if_splits)

lemma loop_failed_head:
  assumes "delete_failed e (calls s) x"
  shows "fst (deleteSubdomain_loop e (x # post) s) = False \<and>
         calls (snd (deleteSubdomain_loop e (x # post) s)) = calls s @ [delete_request x]"
proof (cases "deleteSubdomain_try e x s")
  case (Pair r s1)
  from assms obtain b where "r = Inr (Some b)"
    using deleteSubdomain_try_returns [of e x s] Pair by auto
  moreover from this have "b = False"
    using deleteSubdomain_try_False [of e x s b] Pair by simp
  ultimately have "deleteSubdomain_loop e (x # post) s = (False, s1)"
    using Pair by simp
  then show ?thesis using deleteSubdomain_try_calls [of e x s] Pair by simp
qed

lemma loop_passed_head:
  assumes "\<not> delete_failed e (calls s) x"
  shows "\<exists>s1. deleteSubdomain_loop e (x # rest) s = deleteSubdomain_loop e rest s1 \<and>
              calls s1 = calls s @ [delete_request x]"
proof (cases "deleteSubdomain_try e x s")
  case (Pair r s1)
  have c: "calls s1 = calls s @ [delete_request x]"
    using deleteSubdomain_try_calls [of e x s] Pair by simp
  from assms have nr: "\<And>b. r \<noteq> Inr (Some b)"
    using deleteSubdomain_try_returns [of e x s] Pair by auto
  show ?thesis
  proof (cases r)
    case (Inl err)
    then show ?thesis using Pair c by (cases err) auto
  next
    case (Inr v)
    with nr have "v = None" by (cases v) auto
    with Inr Pair c show ?thesis by auto
  qed
qed

lemma loop_stops:
  assumes "\<forall>i < length pre. \<not> delete_failed e (calls s @ map delete_request (take i pre)) (pre ! i)"
      and "delete_failed e (calls s @ map delete_request pre) x"
  shows "fst (deleteSubdomain_loop e (pre @ x # post) s) = False \<and>
         calls (snd (deleteSubdomain_loop e (pre @ x # post) s))
           = calls s @ map delete_request (pre @ [x])"
  using assms
proof (induction pre arbitrary: s)
  case Nil
  then show ?case using loop_failed_head [of e s x post] by simp
next
  case (Cons p pre)
  from Cons.prems(1) have "\<not> delete_failed e (calls s) p" by fastforce
  then obtain s1 where s1: "deleteSubdomain_loop e (p # (pre @ x # post)) s = deleteSubdomain_loop e (pre @ x # post) s1"
    and c: "calls s1 = calls s @ [delete_request p]"
    using loop_passed_head by blast
  have a: "\<forall>i < length pre. \<not> delete_failed e (calls s1 @ map delete_request (take i pre)) (pre ! i)"
  proof (intro allI impI)
    fix i assume "i < length pre"
    then have "\<not> delete_failed e (calls s @ map delete_request (take (Suc i) (p # pre))) ((p # pre) ! Suc i)"
      using Cons.prems(1) by (metis Suc_less_eq length_Cons)
    then show "\<not> delete_failed e (calls s1 @ map delete_request (take i pre)) (pre ! i)"
      by (simp add: c)
  qed
  have b: "delete_failed e (calls s1 @ map delete_request pre) x"
    using Cons.prems(2) by (simp add: c)
  from Cons.IH [OF a b] show ?case using s1 c by simp
qed

lemma loop_calls_grow:
  "\<exists>more. calls (snd (deleteSubdomain_loop e ids s)) = calls s @ more"
proof (induction ids arbitrary: s)
  case Nil
  then show ?case by simp
next
  case (Cons x ids)
  show ?case
  proof (cases "delete_failed e (calls s) x")
    case True
    then show ?thesis using loop_failed_head [of e s x ids] by simp
  next
    case False
    then obtain s1 where s1: "deleteSubdomain_loop e (x # ids) s = deleteSubdomain_loop e ids s1"
      and c: "calls s1 = calls s @ [delete_request x]"
      using loop_passed_head by blast
    from Cons.IH [of s1] obtain more where "calls (snd (deleteSubdomain_loop e ids s1)) = calls s1 @ more"
      by blast
    then show ?thesis using s1 c by simp
  qed
qed

lemma deleteSubdomain_loop_same_calls:
  "calls s = calls t \<Longrightarrow>
     fst (deleteSubdomain_loop e ids s) = fst (deleteSubdomain_loop e ids t) \<and>
     calls (snd (deleteSubdomain_loop e ids s)) = calls (snd (deleteSubdomain_loop e ids t))"
proof (induction ids arbitrary: s t)
  case Nil
  then show ?case by simp
next
  case (Cons x ids)
  obtain r s1 where s1: "deleteSubdomain_try e x s = (r, s1)" by (cases "deleteSubdomain_try e x s")
  obtain r' t1 where t1: "deleteSubdomain_try e x t = (r', t1)" by (cases "deleteSubdomain_try e x t")
  have r: "r' = r"
    using deleteSubdomain_try_fst [OF Cons.prems, of e x] s1 t1 by simp
  have c: "calls s1 = calls t1"
    using deleteSubdomain_try_calls [of e x s] deleteSubdomain_try_calls [of e x t] s1 t1 Cons.prems
    by simp
  show ?case
  proof (cases r)
    case (Inl err)
    obtain msg where msg: "err = Error msg" by (cases err)
    have "calls (console_error (''Error deleting subdomain: '' @ msg) s1)
            = calls (console_error (''Error deleting subdomain: '' @ msg) t1)"
      using c by simp
    from Cons.IH [OF this] show ?thesis using s1 t1 r Inl msg by simp
  next
    case (Inr v)
    show ?thesis
    proof (cases v)
      case None
      from Cons.IH [OF c] show ?thesis using s1 t1 r Inr None by simp
    next
      case (Some b)
      then show ?thesis using s1 t1 r Inr c by simp
    qed
  qed
qed

lemma deleteSubdomain_same_calls:
  "calls s = calls t \<Longrightarrow>
     fst (deleteSubdomain e a s) = fst (deleteSubdomain e a t) \<and>
     calls (snd (deleteSubdomain e a s)) = calls (snd (deleteSubdomain e a t))"
  using deleteSubdomain_loop_same_calls [of s t e "js_items a"]
  by (simp add: deleteSubdomain_def)

lemma deleteSubdomain_loop_out:
  "\<exists>more. out (snd (deleteSubdomain_loop e ids s)) = out s @ more"
proof (induction ids arbitrary: s)
  case Nil
  then show ?case by simp
next
  case (Cons x ids)
  obtain r s1 where s1: "deleteSubdomain_try e x s = (r, s1)" by (cases "deleteSubdomain_try e x s")
  obtain m1 where m1: "out s1 = out s @ m1"
    using deleteSubdomain_try_out [of e x s] s1 by auto
  show ?case
  proof (cases r)
    case (Inl err)
    obtain msg where msg: "err = Error msg" by (cases err)
    from Cons.IH [of "console_error (''Error deleting subdomain: '' @ msg) s1"]
    show ?thesis using s1 Inl msg m1 by auto
  next
    case (Inr v)
    show ?thesis
    proof (cases v)
      case None
      from Cons.IH [of s1] show ?thesis using s1 Inr None m1 by auto
    next
      case (Some b)
      then show ?thesis using s1 Inr m1 by simp
    qed
  qed
qed

lemma deleteSubdomain_out:
  "\<exists>more. out (snd (deleteSubdomain e a s)) = out s @ more"
  using deleteSubdomain_loop_out [of e "js_items a" s]
  by (simp add: deleteSubdomain_def)

lemmas deleteSubdomain_eval =
  deleteSubdomain_def deleteSubdomain_try_def fetch_def await_json_def ok_response_def not_found_def
  console_log_def console_error_def delete_request_def echo_site_def start_def

text \<open>
  Claim C4. \<^verbatim>\<open>deleteSubdomain\<close> sends the delete calls in list order. If the replies to the
  identifiers \<open>pre\<close> are not unsuccessful and the reply to the next identifier \<open>x\<close> is
  (\<^verbatim>\<open>success\<close> false, with \<^verbatim>\<open>entity_not_found\<close> or any other error), it returns \<^verbatim>\<open>false\<close>
  having sent exactly the calls for \<open>pre\<close> and \<open>x\<close>: none for the identifiers after \<open>x\<close>.
\<close>

theorem deleteSubdomain_stops_at_first_failure:
  assumes "\<forall>i < length pre. \<not> delete_failed e (calls s @ map delete_request (take i pre)) (pre ! i)"
      and "delete_failed e (calls s @ map delete_request pre) x"
  shows "fst (deleteSubdomain e (Arr (pre @ x # post)) s) = False \<and>
         calls (snd (deleteSubdomain e (Arr (pre @ x # post)) s))
           = calls s @ map delete_request (pre @ [x])"
  using loop_stops [OF assms, of post] by (simp add: deleteSubdomain_def)

theorem deleteSubdomain_stops_at_first_failure_witness:
  "fst (deleteSubdomain flaky_env (Arr [''id1'', ''id2'', ''id3'']) start) = False \<and>
   calls (snd (deleteSubdomain flaky_env (Arr [''id1'', ''id2'', ''id3'']) start))
     = [delete_request ''id1'', delete_request ''id2'']"
proof -
  have h1: "\<forall>i < length [''id1''].
              \<not> delete_failed flaky_env (calls start @ map delete_request (take i [''id1''])) ([''id1''] ! i)"
    by (simp add: delete_failed_def await_json_def flaky_env_def ok_response_def delete_request_def)
  have h2: "delete_failed flaky_env (calls start @ map delete_request [''id1'']) ''id2''"
    by (simp add: delete_failed_def await_json_def flaky_env_def ok_response_def not_found_def)
  from deleteSubdomain_stops_at_first_failure [OF h1 h2, of "[''id3'']"]
  show ?thesis by (simp add: start_def)
qed

text \<open>
  Claim C3, as stated, fails: on a platform where every delete succeeds, a list of two
  identifiers gets two delete calls and the result is \<^verbatim>\<open>true\<close>.
\<close>

theorem deleteSubdomain_second_element_attempted:
  "deleteSubdomain demo_env (Arr [''id1'', ''id2'']) start =
     (True,
      \<lparr>calls = [DriversCall ''puter-subdomains'' ''delete'' (IdSubdomain ''id1''),
                DriversCall ''puter-subdomains'' ''delete'' (IdSubdomain ''id2'')],
       out = [Stdout ''Subdomain deleted successfully'', Stdout ''Subdomain deleted successfully'']\<rparr>)"
  by (simp add: deleteSubdomain_eval demo_env_def)

text \<open>
  Claim C3, amended. For a list of two or more identifiers, \<^verbatim>\<open>deleteSubdomain\<close> stops
  after the delete call for the first one exactly when the reply to it is unsuccessful (the
  \<^verbatim>\<open>return false\<close> inside the iteration); otherwise the call for the second identifier
  comes next, since \<^verbatim>\<open>return true\<close> is the statement after the loop.
\<close>

theorem deleteSubdomain_first_element:
  "(calls (snd (deleteSubdomain e (Arr (x # y # rest)) s)) = calls s @ [delete_request x])
     = delete_failed e (calls s) x \<and>
   (delete_failed e (calls s) x \<or>
    (\<exists>more. calls (snd (deleteSubdomain e (Arr (x # y # rest)) s))
              = calls s @ delete_request x # delete_request y # more))"
proof (cases "delete_failed e (calls s) x")
  case True
  then show ?thesis
    using loop_failed_head [of e s x "y # rest"] by (simp add: deleteSubdomain_def)
next
  case False
  then obtain s1 where s1: "deleteSubdomain_loop e (x # y # rest) s = deleteSubdomain_loop e (y # rest) s1"
    and c1: "calls s1 = calls s @ [delete_request x]"
    using loop_passed_head by blast
  have "\<exists>more. calls (snd (deleteSubdomain_loop e (y # rest) s1)) = calls s1 @ delete_request y # more"
  proof (cases "delete_failed e (calls s1) y")
    case True
    then show ?thesis using loop_failed_head [of e s1 y rest] by simp
  next
    case False
    then obtain s2 where s2: "deleteSubdomain_loop e (y # rest) s1 = deleteSubdomain_loop e rest s2"
      and c2: "calls s2 = calls s1 @ [delete_request y]"
      using loop_passed_head by blast
    obtain more where "calls (snd (deleteSubdomain_loop e rest s2)) = calls s2 @ more"
      using loop_calls_grow by blast
    then show ?thesis using s2 c2 by simp
  qed
  then obtain more where
    "calls (snd (deleteSubdomain e (Arr (x # y # rest)) s)) = calls s @ delete_request x # delete_request y # more"
    using s1 c1 by (auto simp add: deleteSubdomain_def)
  with False show ?thesis by auto
qed

theorem deleteSubdomain_first_element_witness:
  "calls (snd (deleteSubdomain flaky_env (Arr [''id2'', ''id3'']) start)) = [delete_request ''id2''] \<and>
   (\<exists>more. calls (snd (deleteSubdomain demo_env (Arr [''id1'', ''id2'']) start))
             = delete_request ''id1'' # delete_request ''id2'' # more)"
proof -
  have h1: "delete_failed flaky_env (calls start) ''id2''"
    by (simp add: delete_failed_def await_json_def flaky_env_def ok_response_def not_found_def)
  have h2: "\<not> delete_failed demo_env (calls start) ''id1''"
    by (simp add: delete_failed_def await_json_def demo_env_def ok_response_def)
  from deleteSubdomain_first_element [of flaky_env "''id2''" "''id3''" "[]" start]
       deleteSubdomain_first_element [of demo_env "''id1''" "''id2''" "[]" start]
       h1 h2
  show ?thesis by (simp add: start_def)
qed

section \<open>Deleting sites\<close>

text \<open>
  Once \<^verbatim>\<open>/delete-site\<close> has answered for a non-empty UUID, the next request is a subdomain
  delete for the UUID's first character, whatever the platform.
\<close>

lemma deleteSite_try_first_delete:
  assumes "await_ok_json (\<lambda>r. ''Failed to delete site (Status: '' @ show_nat (status r) @ '')'')
             (delete_site_call e (calls s) (DeleteSite (c # cs))) = Inr data"
  shows "\<exists>more. calls (snd (deleteSite_try e (c # cs) s))
           = calls s @ DeleteSite (c # cs) # delete_request [c] # more"
proof -
  define s1 where "s1 = s\<lparr>calls := calls s @ [DeleteSite (c # cs)]\<rparr>"
  have c1: "calls s1 = calls s @ [DeleteSite (c # cs)]" by (simp add: s1_def)
  obtain res s2 where d: "deleteSubdomain e (Str (c # cs)) s1 = (res, s2)"
    by (cases "deleteSubdomain e (Str (c # cs)) s1")
  have "\<exists>more. calls (snd (deleteSubdomain_loop e ([c] # map (\<lambda>c. [c]) cs) s1)) = calls s1 @ delete_request [c] # more"
  proof (cases "delete_failed e (calls s1) [c]")
    case True
    then show ?thesis using loop_failed_head [of e s1 "[c]" "map (\<lambda>c. [c]) cs"] by simp
  next
    case False
    then obtain s' where s': "deleteSubdomain_loop e ([c] # map (\<lambda>c. [c]) cs) s1
                                = deleteSubdomain_loop e (map (\<lambda>c. [c]) cs) s'"
      and c': "calls s' = calls s1 @ [delete_request [c]]"
      using loop_passed_head by blast
    obtain more where "calls (snd (deleteSubdomain_loop e (map (\<lambda>c. [c]) cs) s')) = calls s' @ more"
      using loop_calls_grow by blast
    then show ?thesis using s' c' by simp
  qed
  then obtain more where c2: "calls s2 = calls s @ DeleteSite (c # cs) # delete_request [c] # more"
    using c1 d by (auto simp add: deleteSubdomain_def)
  have "calls (snd (deleteSite_try e (c # cs) s)) = calls s2"
    using assms d
    by (simp add: deleteSite_try_def fetch_def s1_def [symmetric] split: option.splits)
  with c2 show ?thesis by simp
qed

text \<open>
  Claim C7, on the code: \<^verbatim>\<open>deleteSite(["sd-1"])\<close> on a platform where every call succeeds.
  The claim expects the delete-site call followed by one subdomain delete for \<^verbatim>\<open>sd-1\<close>;
  the run sends the delete-site call and then one subdomain delete per character.
\<close>

theorem deleteSite_releases_character_by_character:
  "deleteSite demo_env [''sd-1''] start =
     \<lparr>calls = [DeleteSite ''sd-1'',
               DriversCall ''puter-subdomains'' ''delete'' (IdSubdomain ''s''),
               DriversCall ''puter-subdomains'' ''delete'' (IdSubdomain ''d''),
               DriversCall ''puter-subdomains'' ''delete'' (IdSubdomain ''-''),
               DriversCall ''puter-subdomains'' ''delete'' (IdSubdomain ''1'')],
      out = [Stdout ''Subdomain deleted successfully'', Stdout ''Subdomain deleted successfully'',
             Stdout ''Subdomain deleted successfully'', Stdout ''Subdomain deleted successfully'',
             Stdout (''Site ID: '' @ dq ''sd-1'' @ '' should be deleted.''),
             Stdout (''Site ID: '' @ dq ''sd-1'' @ '' may already be deleted!'')]\<rparr>"
  by (simp add: deleteSite_def deleteSite_try_def await_ok_json_def deleteSubdomain_eval demo_env_def)

section \<open>Deploying a site\<close>

lemma getSubdomains_fst: "calls s = calls t \<Longrightarrow> fst (getSubdomains e s) = fst (getSubdomains e t)"
  by (simp add: getSubdomains_def fetch_def)

lemma getSubdomains_calls [simp]: "calls (snd (getSubdomains e s)) = calls s @ [select_request]"
  by (simp add: getSubdomains_def fetch_def)

lemma getSubdomains_out [simp]: "out (snd (getSubdomains e s)) = out s"
  by (simp add: getSubdomains_def fetch_def)

lemma hostDirectory_calls [simp]:
  "calls (snd (hostDirectory e sub dir s)) = calls s @ [host_request sub dir]"
  by (simp add: hostDirectory_def fetch_def split: sum.splits option.splits)

lemma hostDirectory_out [simp]: "out (snd (hostDirectory e sub dir s)) = out s"
  by (simp add: hostDirectory_def fetch_def split: sum.splits option.splits)

lemma deploySite_host_calls [simp]:
  "calls (snd (deploySite_host e appName sub dir s)) = calls s @ [host_request sub dir]"
proof (cases "hostDirectory e sub dir
                (console_log (''Hosting app '' @ dq appName @ '' under subdomain '' @ dq sub @ ''...'') s)")
  case (Pair r s1)
  then have "calls s1 = calls s @ [host_request sub dir]"
    by (metis calls_console_log hostDirectory_calls snd_conv)
  then show ?thesis using Pair
    by (simp add: deploySite_host_def Let_def split: sum.splits option.splits)
qed

lemma deploySite_host_out:
  "\<exists>more. out (snd (deploySite_host e appName sub dir s))
     = out s @ Stdout (''Hosting app '' @ dq appName @ '' under subdomain '' @ dq sub @ ''...'') # more"
proof (cases "hostDirectory e sub dir
                (console_log (''Hosting app '' @ dq appName @ '' under subdomain '' @ dq sub @ ''...'') s)")
  case (Pair r s1)
  then have "out s1 = out s @ [Stdout (''Hosting app '' @ dq appName @ '' under subdomain '' @ dq sub @ ''...'')]"
    by (metis out_console_log hostDirectory_out snd_conv)
  then show ?thesis using Pair
    by (simp add: deploySite_host_def Let_def split: sum.splits option.splits)
qed

lemma deploySite_calls:
  "calls (deploySite e (appName # rest) s)
     = calls (snd (deploySite_try e appName (candidate appName (appName # rest)) (remoteDir e (appName # rest))
                     (console_log (''Deploying app '' @ dq appName @ '' from ''
                                     @ dq (remoteDir e (appName # rest)) @ ''...'' @ nl) s)))"
  by (simp add: deploySite_def Let_def split: prod.splits sum.splits exn.splits)

lemma deploySite_out:
  "\<exists>more. out (deploySite e (appName # rest) s)
     = out (snd (deploySite_try e appName (candidate appName (appName # rest)) (remoteDir e (appName # rest))
                     (console_log (''Deploying app '' @ dq appName @ '' from ''
                                     @ dq (remoteDir e (appName # rest)) @ ''...'' @ nl) s))) @ more"
  by (simp add: deploySite_def Let_def split: prod.splits sum.splits exn.splits)

lemma deploySite_try_fetched:
  assumes "fst (getSubdomains e s) = Inr (Some data)" and "success data" and "result data = Some subdomains"
  shows "deploySite_try e appName sub dir s
           = deploySite_check e appName sub dir subdomains (snd (getSubdomains e s))"
  using assms by (cases "getSubdomains e s") (simp add: deploySite_try_def)

lemma deploySite_fetched:
  assumes "fst (getSubdomains e s) = Inr (Some data)" and "success data" and "result data = Some subdomains"
  shows "\<exists>s1. deploySite_try e appName sub dir (console_log t s)
                 = deploySite_check e appName sub dir subdomains s1
              \<and> calls s1 = calls s @ [select_request] \<and> out s1 = out s @ [Stdout t]"
proof -
  have "fst (getSubdomains e (console_log t s)) = Inr (Some data)"
    using assms(1) getSubdomains_fst [of "console_log t s" s e] by simp
  from deploySite_try_fetched [OF this assms(2,3)] show ?thesis
    by (intro exI [of _ "snd (getSubdomains e (console_log t s))"]) simp
qed

lemma deploySite_check_free:
  assumes "find (\<lambda>sd. subdomain sd = sub) subdomains = None"
  shows "deploySite_check e appName sub dir subdomains s =
           deploySite_host e appName (generateAppName e) dir
             (console_log (''New generated subdomain: '' @ dq (generateAppName e) @ '' will be used.'')
               (console_log
                  (''The subdomain: '' @ dq sub
                     @ '' is already taken, so let'' @ [CHR 0x27] @ ''s generate a new random one:'') s))"
  using assms by (simp add: deploySite_check_def Let_def)

lemma deploySite_check_foreign:
  assumes "find (\<lambda>sd. subdomain sd = sub) subdomains = Some subdomainObj"
      and "username (subdomain_obj.owner subdomainObj) \<noteq> getCurrentUserName e"
  shows "deploySite_check e appName sub dir subdomains s =
           deploySite_host e appName sub dir
             (console_error
                (''The subdomain '' @ dq sub @ '' is already in use and owned by: ''
                   @ dq (username (subdomain_obj.owner subdomainObj))) s)"
  using assms by (simp add: deploySite_check_def Let_def)

lemma deploySite_check_same_dir:
  assumes "find (\<lambda>sd. subdomain sd = sub) subdomains = Some subdomainObj"
      and "username (subdomain_obj.owner subdomainObj) = getCurrentUserName e"
      and "map_option path (root_dir subdomainObj) = Some dir"
  shows "deploySite_check e appName sub dir subdomains s =
           (Inr (),
            console_log (''https://'' @ sub @ ''.puter.site'')
              (console_log ''Which is already the selected directory, and deployed at:''
                (console_log (''It'' @ [CHR 0x27] @ ''s yours, and linked to: '' @ dir)
                  (console_error
                     (''The subdomain '' @ dq sub @ '' is already in use and owned by: ''
                        @ dq (getCurrentUserName e)) s))))"
  using assms by (auto simp add: deploySite_check_def Let_def js_str_def)

lemma deploySite_check_other_dir:
  assumes "find (\<lambda>sd. subdomain sd = sub) subdomains = Some subdomainObj"
      and "username (subdomain_obj.owner subdomainObj) = getCurrentUserName e"
      and "map_option path (root_dir subdomainObj) \<noteq> Some dir"
  shows "deploySite_check e appName sub dir subdomains s =
           deploySite_unlink e appName sub dir subdomainObj
             (console_log
                (''It'' @ [CHR 0x27] @ ''s yours, and linked to: ''
                   @ js_str (map_option path (root_dir subdomainObj)))
                (console_error
                   (''The subdomain '' @ dq sub @ '' is already in use and owned by: ''
                      @ dq (username (subdomain_obj.owner subdomainObj))) s))"
  unfolding deploySite_check_def Let_def using assms by auto

lemma deploySite_unlink_failed:
  assumes "calls t = calls s"
      and "\<not> fst (deleteSubdomain e (Str (subdomain_obj.uid subdomainObj)) t)"
  shows "\<exists>s3. deploySite_unlink e appName sub dir subdomainObj s =
                 deploySite_host e appName sub dir (console_log ''Could not release this subdomain.'' s3)
              \<and> calls s3 = calls (snd (deleteSubdomain e (Str (subdomain_obj.uid subdomainObj)) t))
              \<and> (\<exists>before. out s3 = out s @ before)"
proof -
  define s2 where "s2 =
     console_log (''We'' @ [CHR 0x27] @ ''ll try to unlink this subdomain from that directory...'')
       (console_log (''However, It'' @ [CHR 0x27] @ ''s linked to different directory at: ''
                       @ js_str (map_option path (root_dir subdomainObj))) s)"
  obtain res s3 where s3: "deleteSubdomain e (Str (subdomain_obj.uid subdomainObj)) s2 = (res, s3)"
    by (cases "deleteSubdomain e (Str (subdomain_obj.uid subdomainObj)) s2")
  have ct: "calls s2 = calls t" using assms(1) by (simp add: s2_def)
  have "res = fst (deleteSubdomain e (Str (subdomain_obj.uid subdomainObj)) t)"
    using deleteSubdomain_same_calls [OF ct, of e "Str (subdomain_obj.uid subdomainObj)"] s3 by simp
  with assms(2) have res: "\<not> res" by simp
  have c3: "calls s3 = calls (snd (deleteSubdomain e (Str (subdomain_obj.uid subdomainObj)) t))"
    using deleteSubdomain_same_calls [OF ct, of e "Str (subdomain_obj.uid subdomainObj)"] s3 by simp
  obtain more where "out s3 = out s2 @ more"
    using deleteSubdomain_out [of e "Str (subdomain_obj.uid subdomainObj)" s2] s3 by auto
  then have o3: "\<exists>before. out s3 = out s @ before" by (simp add: s2_def)
  have "deploySite_unlink e appName sub dir subdomainObj s =
          deploySite_host e appName sub dir (console_log ''Could not release this subdomain.'' s3)"
    unfolding deploySite_unlink_def s2_def [symmetric] s3 using res by simp
  with c3 o3 show ?thesis by blast
qed

lemmas deploySite_eval =
  deploySite_def deploySite_try_def deploySite_check_def deploySite_host_def hostDirectory_def
  getSubdomains_def candidate_def subdomainOption_def remoteDir_def startsWith_def Let_def
  fetch_def await_ok_json_def ok_response_def start_def console_log_def console_error_def
  echo_site_def

text \<open>
  When no entry of the fetched list has the candidate's name, the run takes the
  \<^verbatim>\<open>else\<close> of \<^verbatim>\<open>if (subdomainObj)\<close>: the subdomain create call carries the generated name.
\<close>

lemma deploySite_free_candidate:
  assumes "fst (getSubdomains e s) = Inr (Some data)" and "success data"
      and "result data = Some subdomains"
      and "find (\<lambda>sd. subdomain sd = candidate appName (appName # rest)) subdomains = None"
  shows "calls (deploySite e (appName # rest) s)
           = calls s @ [select_request, host_request (generateAppName e) (remoteDir e (appName # rest))]"
proof -
  let ?args = "appName # rest"
  let ?t = "''Deploying app '' @ dq appName @ '' from '' @ dq (remoteDir e ?args) @ ''...'' @ nl"
  obtain s1 where tr: "deploySite_try e appName (candidate appName ?args) (remoteDir e ?args) (console_log ?t s)
                     = deploySite_check e appName (candidate appName ?args) (remoteDir e ?args) subdomains s1"
    and c1: "calls s1 = calls s @ [select_request]"
    using deploySite_fetched [OF assms(1,2,3)] by blast
  show ?thesis
    unfolding deploySite_calls tr deploySite_check_free [OF assms(4)] by (simp add: c1)
qed

text \<open>
  Claim C1, on the code: \<^verbatim>\<open>deploySite(["myapp"])\<close> for user \<^verbatim>\<open>alice\<close> in \<^verbatim>\<open>/alice/Desktop\<close>,
  when the platform lists no subdomain at all. The claim expects one create call for
  \<^verbatim>\<open>myapp\<close> and \<^verbatim>\<open>https://myapp.puter.site\<close> in the output; the run reports the free name as
  taken and hosts the directory under the generated name instead.
\<close>

theorem deploySite_free_name_replaced:
  "deploySite demo_env [''myapp''] start =
     \<lparr>calls = [DriversCall ''puter-subdomains'' ''select'' NoArgs,
               DriversCall ''puter-subdomains'' ''create''
                 (SubdomainObject ''lucky-otter-42'' ''/alice/Desktop'')],
      out = [Stdout (''Deploying app '' @ dq ''myapp'' @ '' from '' @ dq ''/alice/Desktop'' @ ''...'' @ nl),
             Stdout (''The subdomain: '' @ dq ''myapp'' @ '' is already taken, so let''
                       @ [CHR 0x27] @ ''s generate a new random one:''),
             Stdout (''New generated subdomain: '' @ dq ''lucky-otter-42'' @ '' will be used.''),
             Stdout (''Hosting app '' @ dq ''myapp'' @ '' under subdomain '' @ dq ''lucky-otter-42'' @ ''...''),
             Stdout (''App '' @ dq ''myapp'' @ '' deployed successfully!''),
             Stdout ''Website hosted at: https://lucky-otter-42.puter.site'']\<rparr>"
  by (simp add: deploySite_eval demo_env_def select_request_def host_request_def)

text \<open>
  When the candidate is in the list and owned by somebody else, nothing is generated: the
  subdomain create call carries the candidate itself.
\<close>

lemma deploySite_foreign_owner:
  assumes "fst (getSubdomains e s) = Inr (Some data)" and "success data"
      and "result data = Some subdomains"
      and "find (\<lambda>sd. subdomain sd = candidate appName (appName # rest)) subdomains = Some subdomainObj"
      and "username (subdomain_obj.owner subdomainObj) \<noteq> getCurrentUserName e"
  shows "calls (deploySite e (appName # rest) s)
           = calls s @ [select_request,
                        host_request (candidate appName (appName # rest)) (remoteDir e (appName # rest))]"
proof -
  let ?args = "appName # rest"
  let ?t = "''Deploying app '' @ dq appName @ '' from '' @ dq (remoteDir e ?args) @ ''...'' @ nl"
  obtain s1 where tr: "deploySite_try e appName (candidate appName ?args) (remoteDir e ?args) (console_log ?t s)
                     = deploySite_check e appName (candidate appName ?args) (remoteDir e ?args) subdomains s1"
    and c1: "calls s1 = calls s @ [select_request]"
    using deploySite_fetched [OF assms(1,2,3)] by blast
  show ?thesis
    unfolding deploySite_calls tr deploySite_check_foreign [OF assms(4,5)] by (simp add: c1)
qed

text \<open>
  Claim C2, on the code: \<^verbatim>\<open>deploySite(["myapp"])\<close> for user \<^verbatim>\<open>alice\<close> when \<^verbatim>\<open>myapp\<close> belongs to
  \<^verbatim>\<open>bob\<close>. The claim expects a generated name in the create call; the run prints who owns
  the name and then asks the platform to create \<^verbatim>\<open>myapp\<close> itself.
\<close>

theorem deploySite_foreign_name_kept:
  "deploySite (bound_env ''bob'' ''/bob/site'') [''myapp''] start =
     \<lparr>calls = [DriversCall ''puter-subdomains'' ''select'' NoArgs,
               DriversCall ''puter-subdomains'' ''create''
                 (SubdomainObject ''myapp'' ''/alice/Desktop'')],
      out = [Stdout (''Deploying app '' @ dq ''myapp'' @ '' from '' @ dq ''/alice/Desktop'' @ ''...'' @ nl),
             Stderr (''The subdomain '' @ dq ''myapp'' @ '' is already in use and owned by: '' @ dq ''bob''),
             Stdout (''Hosting app '' @ dq ''myapp'' @ '' under subdomain '' @ dq ''myapp'' @ ''...''),
             Stdout (''App '' @ dq ''myapp'' @ '' deployed successfully!''),
             Stdout ''Website hosted at: https://myapp.puter.site'']\<rparr>"
  by (simp add: deploySite_eval bound_env_def demo_env_def myapp_entry_def select_request_def host_request_def)

text \<open>
  Claim C6. Whenever the candidate subdomain is in the fetched list, owned by the current
  user, with a \<^verbatim>\<open>root_dir\<close> path equal to the resolved target directory, \<^verbatim>\<open>deploySite\<close>
  sends the select request and nothing else (no subdomain create call), and prints that
  the site is already deployed, with its URL, as its last two lines.
\<close>

theorem deploySite_same_directory_is_noop:
  assumes "fst (getSubdomains e s) = Inr (Some data)" and "success data"
      and "result data = Some subdomains"
      and "find (\<lambda>sd. subdomain sd = candidate appName (appName # rest)) subdomains = Some subdomainObj"
      and "username (subdomain_obj.owner subdomainObj) = getCurrentUserName e"
      and "map_option path (root_dir subdomainObj) = Some (remoteDir e (appName # rest))"
  shows "calls (deploySite e (appName # rest) s) = calls s @ [select_request] \<and>
         out (deploySite e (appName # rest) s) = out s @
           [Stdout (''Deploying app '' @ dq appName @ '' from '' @ dq (remoteDir e (appName # rest)) @ ''...'' @ nl),
            Stderr (''The subdomain '' @ dq (candidate appName (appName # rest))
                      @ '' is already in use and owned by: '' @ dq (getCurrentUserName e)),
            Stdout (''It'' @ [CHR 0x27] @ ''s yours, and linked to: '' @ remoteDir e (appName # rest)),
            Stdout ''Which is already the selected directory, and deployed at:'',
            Stdout (''https://'' @ candidate appName (appName # rest) @ ''.puter.site'')]"
proof -
  let ?args = "appName # rest"
  let ?t = "''Deploying app '' @ dq appName @ '' from '' @ dq (remoteDir e ?args) @ ''...'' @ nl"
  obtain s1 where tr: "deploySite_try e appName (candidate appName ?args) (remoteDir e ?args) (console_log ?t s)
                     = deploySite_check e appName (candidate appName ?args) (remoteDir e ?args) subdomains s1"
    and c1: "calls s1 = calls s @ [select_request]" and o1: "out s1 = out s @ [Stdout ?t]"
    using deploySite_fetched [OF assms(1,2,3)] by blast
  have run: "deploySite e ?args s = snd (deploySite_check e appName (candidate appName ?args) (remoteDir e ?args) subdomains s1)"
    unfolding deploySite_def Let_def list.case tr
    unfolding deploySite_check_same_dir [OF assms(4,5,6)] by simp
  show ?thesis
    unfolding run deploySite_check_same_dir [OF assms(4,5,6)] by (simp add: c1 o1)
qed

theorem deploySite_same_directory_is_noop_witness:
  "calls (deploySite (bound_env ''alice'' ''/alice/Desktop'') [''myapp''] start) = [select_request] \<and>
   out (deploySite (bound_env ''alice'' ''/alice/Desktop'') [''myapp''] start) =
     [Stdout (''Deploying app '' @ dq ''myapp'' @ '' from '' @ dq ''/alice/Desktop'' @ ''...'' @ nl),
      Stderr (''The subdomain '' @ dq ''myapp'' @ '' is already in use and owned by: '' @ dq ''alice''),
      Stdout (''It'' @ [CHR 0x27] @ ''s yours, and linked to: /alice/Desktop''),
      Stdout ''Which is already the selected directory, and deployed at:'',
      Stdout ''https://myapp.puter.site'']"
proof -
  let ?e = "bound_env ''alice'' ''/alice/Desktop''"
  let ?data = "\<lparr>success = True, result = Some [myapp_entry ''alice'' ''/alice/Desktop''], error = None\<rparr>"
  have cand: "candidate ''myapp'' [''myapp''] = ''myapp''"
    by (simp add: candidate_def subdomainOption_def startsWith_def)
  have dir: "remoteDir ?e [''myapp''] = ''/alice/Desktop''"
    by (simp add: remoteDir_def bound_env_def demo_env_def)
  have user: "getCurrentUserName ?e = ''alice''"
    by (simp add: bound_env_def demo_env_def)
  have h1: "fst (getSubdomains ?e start) = Inr (Some ?data)"
    by (simp add: getSubdomains_def fetch_def await_ok_json_def bound_env_def ok_response_def)
  have h4: "find (\<lambda>sd. subdomain sd = candidate ''myapp'' [''myapp''])
              [myapp_entry ''alice'' ''/alice/Desktop''] = Some (myapp_entry ''alice'' ''/alice/Desktop'')"
    by (simp add: cand myapp_entry_def)
  have h5: "username (subdomain_obj.owner (myapp_entry ''alice'' ''/alice/Desktop'')) = getCurrentUserName ?e"
    by (simp add: user myapp_entry_def)
  have h6: "map_option path (root_dir (myapp_entry ''alice'' ''/alice/Desktop'')) = Some (remoteDir ?e [''myapp''])"
    by (simp add: dir myapp_entry_def)
  from deploySite_same_directory_is_noop [OF h1 _ _ h4 h5 h6]
  show ?thesis by (simp add: cand dir user start_def)
qed

text \<open>
  Claim C10. Whenever the candidate subdomain is in the fetched list, owned by the current
  user, linked to a directory other than the resolved one, and the unlink attempt (made
  right after the select request) returns \<^verbatim>\<open>false\<close>, \<^verbatim>\<open>deploySite\<close> does not stop: it
  prints that it could not release the subdomain, then the hosting line, and its last
  request is the subdomain create call with the candidate name and the resolved directory.
\<close>

theorem deploySite_release_failure_still_hosts:
  assumes "fst (getSubdomains e s) = Inr (Some data)" and "success data"
      and "result data = Some subdomains"
      and "find (\<lambda>sd. subdomain sd = candidate appName (appName # rest)) subdomains = Some subdomainObj"
      and "username (subdomain_obj.owner subdomainObj) = getCurrentUserName e"
      and "map_option path (root_dir subdomainObj) \<noteq> Some (remoteDir e (appName # rest))"
      and "calls t = calls s @ [select_request]"
      and "\<not> fst (deleteSubdomain e (Str (subdomain_obj.uid subdomainObj)) t)"
  shows "calls (deploySite e (appName # rest) s)
           = calls (snd (deleteSubdomain e (Str (subdomain_obj.uid subdomainObj)) t))
               @ [host_request (candidate appName (appName # rest)) (remoteDir e (appName # rest))] \<and>
         (\<exists>before after. out (deploySite e (appName # rest) s)
            = out s @ before
                @ [Stdout ''Could not release this subdomain.'',
                   Stdout (''Hosting app '' @ dq appName @ '' under subdomain ''
                             @ dq (candidate appName (appName # rest)) @ ''...'')]
                @ after)"
proof -
  let ?args = "appName # rest"
  let ?sub = "candidate appName ?args"
  let ?dir = "remoteDir e ?args"
  let ?t = "''Deploying app '' @ dq appName @ '' from '' @ dq ?dir @ ''...'' @ nl"
  let ?hosting = "''Hosting app '' @ dq appName @ '' under subdomain '' @ dq ?sub @ ''...''"
  obtain s1 where tr: "deploySite_try e appName ?sub ?dir (console_log ?t s)
                     = deploySite_check e appName ?sub ?dir subdomains s1"
    and c1: "calls s1 = calls s @ [select_request]" and o1: "out s1 = out s @ [Stdout ?t]"
    using deploySite_fetched [OF assms(1,2,3)] by blast
  define s2 where "s2 =
     console_log (''It'' @ [CHR 0x27] @ ''s yours, and linked to: ''
                    @ js_str (map_option path (root_dir subdomainObj)))
       (console_error (''The subdomain '' @ dq ?sub @ '' is already in use and owned by: ''
                         @ dq (username (subdomain_obj.owner subdomainObj))) s1)"
  have chk: "deploySite_check e appName ?sub ?dir subdomains s1
               = deploySite_unlink e appName ?sub ?dir subdomainObj s2"
    unfolding s2_def by (rule deploySite_check_other_dir [OF assms(4,5,6)])
  have ct: "calls t = calls s2" using assms(7) c1 by (simp add: s2_def)
  obtain s3 where unl: "deploySite_unlink e appName ?sub ?dir subdomainObj s2
                          = deploySite_host e appName ?sub ?dir
                              (console_log ''Could not release this subdomain.'' s3)"
    and c3: "calls s3 = calls (snd (deleteSubdomain e (Str (subdomain_obj.uid subdomainObj)) t))"
    and o3: "\<exists>before. out s3 = out s2 @ before"
    using deploySite_unlink_failed [OF ct assms(8)] by blast
  define s4 where "s4 = console_log ''Could not release this subdomain.'' s3"
  have run: "deploySite_try e appName ?sub ?dir (console_log ?t s)
               = deploySite_host e appName ?sub ?dir s4"
    by (simp only: tr chk unl s4_def)
  have "calls (deploySite e ?args s) = calls (snd (deploySite_host e appName ?sub ?dir s4))"
    unfolding deploySite_calls run ..
  then have calls: "calls (deploySite e ?args s)
      = calls (snd (deleteSubdomain e (Str (subdomain_obj.uid subdomainObj)) t)) @ [host_request ?sub ?dir]"
    by (simp add: s4_def c3)
  obtain before where b: "out s3 = out s2 @ before" using o3 by blast
  have o2: "\<exists>pre. out s2 = out s @ pre" by (simp add: s2_def o1)
  then obtain pre where pre: "out s2 = out s @ pre" by blast
  have o4: "out s4 = out s @ (pre @ before) @ [Stdout ''Could not release this subdomain.'']"
    by (simp add: s4_def b pre)
  obtain m1 where m1: "out (snd (deploySite_host e appName ?sub ?dir s4)) = out s4 @ Stdout ?hosting # m1"
    using deploySite_host_out [of e appName ?sub ?dir s4] by blast
  obtain m2 where m2: "out (deploySite e ?args s)
                         = out (snd (deploySite_try e appName ?sub ?dir (console_log ?t s))) @ m2"
    using deploySite_out [of e appName rest s] by blast
  have "out (deploySite e ?args s)
          = out s @ (pre @ before) @ [Stdout ''Could not release this subdomain.'', Stdout ?hosting] @ (m1 @ m2)"
    unfolding m2 run m1 o4 by simp
  then have "\<exists>before after. out (deploySite e ?args s)
          = out s @ before @ [Stdout ''Could not release this subdomain.'', Stdout ?hosting] @ after"
    by blast
  with calls show ?thesis by blast
qed

theorem deploySite_release_failure_still_hosts_witness:
  "calls (deploySite stuck_env [''myapp''] start)
     = [select_request, delete_request ''s'', host_request ''myapp'' ''/alice/Desktop''] \<and>
   (\<exists>before after. out (deploySite stuck_env [''myapp''] start)
      = before
          @ [Stdout ''Could not release this subdomain.'',
             Stdout (''Hosting app '' @ dq ''myapp'' @ '' under subdomain '' @ dq ''myapp'' @ ''...'')]
          @ after)"
proof -
  let ?e = "stuck_env"
  let ?entry = "myapp_entry ''alice'' ''/alice/old''"
  let ?data = "\<lparr>success = True, result = Some [?entry], error = None\<rparr>"
  let ?t = "\<lparr>calls = [select_request], out = []\<rparr>"
  have cand: "candidate ''myapp'' [''myapp''] = ''myapp''"
    by (simp add: candidate_def subdomainOption_def startsWith_def)
  have dir: "remoteDir ?e [''myapp''] = ''/alice/Desktop''"
    by (simp add: remoteDir_def stuck_env_def bound_env_def demo_env_def)
  have user: "getCurrentUserName ?e = ''alice''"
    by (simp add: stuck_env_def bound_env_def demo_env_def)
  have h1: "fst (getSubdomains ?e start) = Inr (Some ?data)"
    by (simp add: getSubdomains_def fetch_def await_ok_json_def stuck_env_def bound_env_def ok_response_def)
  have h4: "find (\<lambda>sd. subdomain sd = candidate ''myapp'' [''myapp'']) [?entry] = Some ?entry"
    by (simp add: cand myapp_entry_def)
  have h5: "username (subdomain_obj.owner ?entry) = getCurrentUserName ?e"
    by (simp add: user myapp_entry_def)
  have h6: "map_option path (root_dir ?entry) \<noteq> Some (remoteDir ?e [''myapp''])"
    by (simp add: dir myapp_entry_def)
  have h7: "calls ?t = calls start @ [select_request]"
    by (simp add: start_def)
  have del: "deleteSubdomain ?e (Str (subdomain_obj.uid ?entry)) ?t
               = (False, \<lparr>calls = [select_request, delete_request ''s''],
                          out = [Stdout (''Subdomain ID: '' @ dq ''s'' @ '' not found'')]\<rparr>)"
    by (simp add: deleteSubdomain_def deleteSubdomain_try_def fetch_def await_json_def myapp_entry_def
          stuck_env_def not_found_def ok_response_def echo_site_def delete_request_def console_log_def)
  have h8: "\<not> fst (deleteSubdomain ?e (Str (subdomain_obj.uid ?entry)) ?t)"
    by (simp only: del fst_conv not_False_eq_True)
  from deploySite_release_failure_still_hosts [OF h1 _ _ h4 h5 h6 h7 h8]
  show ?thesis by (simp add: del cand dir start_def)
qed

section \<open>Deleting an app\<close>

text \<open>
  Claim C8. Whenever the read call answers with \<^verbatim>\<open>success\<close> false or without a result,
  \<^verbatim>\<open>deleteApp\<close> prints that the app is not found, returns \<^verbatim>\<open>false\<close>, and the read request is
  the only request it sends: no delete call.
\<close>

theorem deleteApp_not_found:
  assumes "await_json (app_call e (calls s) (read_app_request name')) = Inr (Some readData)"
      and "\<not> success readData \<or> result readData = None"
  shows "deleteApp e name' s =
           (Some False,
            s\<lparr>calls := calls s @ [read_app_request name'],
              out := out s @ [Stdout (''Checking app '' @ dq name' @ ''...'' @ nl),
                              Stdout (''App '' @ dq name' @ '' not found.'')]\<rparr>)"
  using assms
  by (auto simp add: deleteApp_def deleteApp_try_def fetch_def console_log_def split: bool.splits option.splits)

theorem deleteApp_not_found_witness:
  "deleteApp missing_app_env ''nonexistent-app'' start =
     (Some False,
      \<lparr>calls = [DriversCall ''puter-apps'' ''read'' (IdName ''nonexistent-app'')],
       out = [Stdout (''Checking app '' @ dq ''nonexistent-app'' @ ''...'' @ nl),
              Stdout (''App '' @ dq ''nonexistent-app'' @ '' not found.'')]\<rparr>)"
proof -
  let ?readData = "\<lparr>success = False, result = None :: app_obj option,
                    error = Some \<lparr>code = ''entity_not_found'', message = ''Entity not found''\<rparr>\<rparr>"
  have h1: "await_json (app_call missing_app_env (calls start) (read_app_request ''nonexistent-app''))
              = Inr (Some ?readData)"
    by (simp add: await_json_def missing_app_env_def ok_response_def)
  have h2: "\<not> success ?readData \<or> result ?readData = None" by simp
  from deleteApp_not_found [OF h1 h2]
  show ?thesis by (simp add: start_def read_app_request_def)
qed

section \<open>Creating an app\<close>

text \<open>
  The four steps of \<^verbatim>\<open>createApp\<close>, each on the reply that lets it go on (or, for the
  directory, stop).
\<close>

lemma createApp_update_ok:
  assumes "await_json (app_call e (calls s) (update_app_request appName name')) = Inr (Some updateAppData)"
      and "success updateAppData"
  shows "createApp_update e name' appName sub s =
           (Inr (),
            s\<lparr>calls := calls s @ [update_app_request appName name'],
              out := out s @ [Stdout (''Set '' @ dq sub @ '' as a subdomain for app: '' @ dq appName @ ''...'' @ nl),
                              Stdout ''App deployed successfully at:'',
                              Stdout (''https://'' @ sub @ ''.puter.site'')]\<rparr>)"
  using assms
  by (simp add: createApp_update_def fetch_def console_log_def unsuccessful_def)

lemma createApp_subdomain_ok:
  assumes "await_json (subdomain_call e (calls s)
             (host_request (subdomainName name' uid')
                (''/'' @ username' @ ''/AppData/'' @ appUid @ ''/'' @ js_str (dir_obj.name createDirData))))
             = Inr (Some createSubdomainData)"
      and "success createSubdomainData"
  shows "createApp_subdomain e name' appUid appName username' uid' createDirData s =
           createApp_update e name' appName (subdomainName name' uid')
             (s\<lparr>calls := calls s @ [host_request (subdomainName name' uid')
                (''/'' @ username' @ ''/AppData/'' @ appUid @ ''/'' @ js_str (dir_obj.name createDirData))],
               out := out s @ [Stdout (''Creating subdomain: '' @ dq (subdomainName name' uid') @ ''...'' @ nl),
                               Stdout ''Subdomain created successfully!'',
                               Stdout (''Subdomain: '' @ subdomainName name' uid')]\<rparr>)"
  using assms
  by (simp add: createApp_subdomain_def Let_def fetch_def console_log_def unsuccessful_def)

lemma createApp_directory_ok:
  assumes "await_json (mkdir_call e (calls s) (mkdir_request username' appUid (randomUUID e)))
             = Inr (Some createDirData)"
      and "dir_obj.uid createDirData = Some dirUid" and "dirUid \<noteq> []"
  shows "createApp_directory e name' appUid appName username' s =
           createApp_subdomain e name' appUid appName username' (randomUUID e) createDirData
             (s\<lparr>calls := calls s @ [mkdir_request username' appUid (randomUUID e)],
               out := out s @ [Stdout (''Creating directory for app '' @ dq name' @ '' with UID: ''
                                         @ dq (randomUUID e) @ '' ...'' @ nl),
                               Stdout ''Directory created successfully!'',
                               Stdout (''Directory UID: '' @ dirUid)]\<rparr>)"
  using assms
  by (simp add: createApp_directory_def Let_def fetch_def console_log_def)

lemma createApp_directory_failed:
  assumes "await_json (mkdir_call e (calls s) (mkdir_request username' appUid (randomUUID e)))
             = Inr createDirData"
      and "Option.bind createDirData dir_obj.uid = None \<or> Option.bind createDirData dir_obj.uid = Some []"
  shows "createApp_directory e name' appUid appName username' s =
           (Inr (),
            s\<lparr>calls := calls s @ [mkdir_request username' appUid (randomUUID e)],
              out := out s @ [Stdout (''Creating directory for app '' @ dq name' @ '' with UID: ''
                                        @ dq (randomUUID e) @ '' ...'' @ nl),
                              Stderr (''Failed to create directory for app '' @ dq name')]\<rparr>)"
  using assms
  by (auto simp add: createApp_directory_def Let_def fetch_def console_log_def console_error_def
           split: option.splits)

lemma createApp_created:
  assumes "await_json (app_call e (calls s) (create_app_request name' description url)) = Inr (Some createAppData)"
      and "success createAppData" and "result createAppData = Some r"
  shows "createApp e name' description url s =
           (case createApp_directory e name' (app_obj.uid r) (app_obj.name r) (username (app_obj.owner r))
                   (s\<lparr>calls := calls s @ [create_app_request name' description url],
                     out := out s @ [Stdout (''Creating app: '' @ dq name' @ ''...'' @ nl),
                                     Stdout (''App '' @ dq name' @ '' created successfully!''),
                                     Stdout (''AppName: '' @ app_obj.name r @ nl @ ''UID: '' @ app_obj.uid r @ nl
                                               @ ''Username: '' @ username (app_obj.owner r))]\<rparr>) of
              (Inl (Error msg), s1) \<Rightarrow>
                console_error (''Failed to create app '' @ dq name' @ ''.'' @ nl @ ''Error: '' @ msg) s1
            | (Inr _, s1) \<Rightarrow> s1)"
  using assms
  by (simp add: createApp_def createApp_try_def Let_def fetch_def console_log_def)

lemmas createApp_eval =
  createApp_def createApp_try_def createApp_directory_def createApp_subdomain_def createApp_update_def
  unsuccessful_def Let_def fetch_def await_json_def ok_response_def console_log_def console_error_def
  echo_site_def demo_app_def start_def create_app_request_def mkdir_request_def host_request_def
  update_app_request_def subdomainName_def first_segment_def js_str_def

text \<open>
  Claim C5. Whenever app creation succeeds and the \<^verbatim>\<open>/mkdir\<close> reply is \<^verbatim>\<open>null\<close> or has no
  (or an empty) \<^verbatim>\<open>uid\<close>, \<^verbatim>\<open>createApp\<close> prints the directory error and returns having sent
  the create-app and mkdir requests only: no subdomain create call and no app update call.
\<close>

theorem createApp_directory_failure_stops:
  assumes "await_json (app_call e (calls s) (create_app_request name' description url)) = Inr (Some createAppData)"
      and "success createAppData" and "result createAppData = Some r"
      and "await_json (mkdir_call e (calls s @ [create_app_request name' description url])
                         (mkdir_request (username (app_obj.owner r)) (app_obj.uid r) (randomUUID e)))
             = Inr createDirData"
      and "Option.bind createDirData dir_obj.uid = None \<or> Option.bind createDirData dir_obj.uid = Some []"
  shows "createApp e name' description url s =
           s\<lparr>calls := calls s @ [create_app_request name' description url,
                                  mkdir_request (username (app_obj.owner r)) (app_obj.uid r) (randomUUID e)],
             out := out s @ [Stdout (''Creating app: '' @ dq name' @ ''...'' @ nl),
                             Stdout (''App '' @ dq name' @ '' created successfully!''),
                             Stdout (''AppName: '' @ app_obj.name r @ nl @ ''UID: '' @ app_obj.uid r @ nl
                                       @ ''Username: '' @ username (app_obj.owner r)),
                             Stdout (''Creating directory for app '' @ dq name' @ '' with UID: ''
                                       @ dq (randomUUID e) @ '' ...'' @ nl),
                             Stderr (''Failed to create directory for app '' @ dq name')]\<rparr>"
proof -
  let ?s1 = "s\<lparr>calls := calls s @ [create_app_request name' description url],
               out := out s @ [Stdout (''Creating app: '' @ dq name' @ ''...'' @ nl),
                               Stdout (''App '' @ dq name' @ '' created successfully!''),
                               Stdout (''AppName: '' @ app_obj.name r @ nl @ ''UID: '' @ app_obj.uid r @ nl
                                         @ ''Username: '' @ username (app_obj.owner r))]\<rparr>"
  have m: "await_json (mkdir_call e (calls ?s1)
                         (mkdir_request (username (app_obj.owner r)) (app_obj.uid r) (randomUUID e)))
             = Inr createDirData"
    using assms(4) by simp
  show ?thesis
    unfolding createApp_created [OF assms(1,2,3)]
              createApp_directory_failed [OF m assms(5), of name' "app_obj.name r"]
    by simp
qed

theorem createApp_directory_failure_stops_witness:
  "createApp no_dir_env ''app'' [] default_url start =
     \<lparr>calls = [DriversCall ''puter-apps'' ''create'' (CreateAppArgs ''app'' default_url ''app'' []),
               Mkdir ''/alice/AppData/app-7'' ''app-1b4e28ba-2fa1-11d2-883f-0016d3cca427''],
      out = [Stdout (''Creating app: '' @ dq ''app'' @ ''...'' @ nl),
             Stdout (''App '' @ dq ''app'' @ '' created successfully!''),
             Stdout (''AppName: app'' @ nl @ ''UID: app-7'' @ nl @ ''Username: alice''),
             Stdout (''Creating directory for app '' @ dq ''app'' @ '' with UID: ''
                       @ dq ''1b4e28ba-2fa1-11d2-883f-0016d3cca427'' @ '' ...'' @ nl),
             Stderr (''Failed to create directory for app '' @ dq ''app'')]\<rparr>"
proof -
  let ?e = no_dir_env
  let ?created = "\<lparr>success = True, result = Some (demo_app ''app''), error = None\<rparr>"
  let ?dir = "\<lparr>dir_obj.uid = None, name = Some ''app-dir''\<rparr>"
  have h1: "await_json (app_call ?e (calls start) (create_app_request ''app'' [] default_url))
              = Inr (Some ?created)"
    by (simp add: await_json_def no_dir_env_def demo_env_def ok_response_def)
  have h4: "await_json (mkdir_call ?e (calls start @ [create_app_request ''app'' [] default_url])
                          (mkdir_request (username (app_obj.owner (demo_app ''app'')))
                             (app_obj.uid (demo_app ''app'')) (randomUUID ?e)))
              = Inr (Some ?dir)"
    by (simp add: await_json_def no_dir_env_def ok_response_def)
  have h5: "Option.bind (Some ?dir) dir_obj.uid = None \<or> Option.bind (Some ?dir) dir_obj.uid = Some []"
    by simp
  from createApp_directory_failure_stops [OF h1 _ _ h4 h5]
  show ?thesis
    by (simp add: start_def create_app_request_def mkdir_request_def demo_app_def no_dir_env_def demo_env_def)
qed

text \<open>
  Claim C9, amended. In every run of \<^verbatim>\<open>createApp\<close> whose four steps succeed, the update call
  writes \<^verbatim>\<open>https://{canonical name}.puter.site\<close> as \<^verbatim>\<open>index_url\<close>, the subdomain created is
  \<^verbatim>\<open>{requested name}-{first uuid segment}\<close> and the last line printed is that subdomain's
  URL. The two URLs are equal exactly when the canonical name returned by the platform is
  \<^verbatim>\<open>{requested name}-{first uuid segment}\<close>; when the canonical name is the requested name
  they differ.
\<close>

theorem createApp_index_url:
  assumes "await_json (app_call e (calls s) (create_app_request name' description url)) = Inr (Some createAppData)"
      and "success createAppData" and "result createAppData = Some r"
      and "await_json (mkdir_call e (calls s @ [create_app_request name' description url])
                         (mkdir_request (username (app_obj.owner r)) (app_obj.uid r) (randomUUID e)))
             = Inr (Some createDirData)"
      and "dir_obj.uid createDirData = Some dirUid" and "dirUid \<noteq> []"
      and "await_json (subdomain_call e
                         (calls s @ [create_app_request name' description url,
                                     mkdir_request (username (app_obj.owner r)) (app_obj.uid r) (randomUUID e)])
                         (host_request (subdomainName name' (randomUUID e))
                            (''/'' @ username (app_obj.owner r) @ ''/AppData/'' @ app_obj.uid r @ ''/''
                               @ js_str (dir_obj.name createDirData))))
             = Inr (Some createSubdomainData)"
      and "success createSubdomainData"
      and "await_json (app_call e
                         (calls s @ [create_app_request name' description url,
                                     mkdir_request (username (app_obj.owner r)) (app_obj.uid r) (randomUUID e),
                                     host_request (subdomainName name' (randomUUID e))
                                       (''/'' @ username (app_obj.owner r) @ ''/AppData/'' @ app_obj.uid r @ ''/''
                                          @ js_str (dir_obj.name createDirData))])
                         (update_app_request (app_obj.name r) name'))
             = Inr (Some updateAppData)"
      and "success updateAppData"
  shows "calls (createApp e name' description url s) =
           calls s @ [create_app_request name' description url,
                      mkdir_request (username (app_obj.owner r)) (app_obj.uid r) (randomUUID e),
                      DriversCall ''puter-subdomains'' ''create''
                        (SubdomainObject (name' @ ''-'' @ first_segment (randomUUID e))
                           (''/'' @ username (app_obj.owner r) @ ''/AppData/'' @ app_obj.uid r @ ''/''
                              @ js_str (dir_obj.name createDirData))),
                      DriversCall ''puter-apps'' ''update''
                        (UpdateAppArgs (app_obj.name r) (''https://'' @ app_obj.name r @ ''.puter.site'') name')] \<and>
         last (out (createApp e name' description url s))
           = Stdout (''https://'' @ name' @ ''-'' @ first_segment (randomUUID e) @ ''.puter.site'') \<and>
         ((''https://'' @ app_obj.name r @ ''.puter.site''
             = ''https://'' @ name' @ ''-'' @ first_segment (randomUUID e) @ ''.puter.site'')
            = (app_obj.name r = name' @ ''-'' @ first_segment (randomUUID e))) \<and>
         (app_obj.name r = name' \<longrightarrow>
            ''https://'' @ app_obj.name r @ ''.puter.site''
              \<noteq> ''https://'' @ name' @ ''-'' @ first_segment (randomUUID e) @ ''.puter.site'')"
proof -
  let ?create = "create_app_request name' description url"
  let ?mkdir = "mkdir_request (username (app_obj.owner r)) (app_obj.uid r) (randomUUID e)"
  let ?root = "''/'' @ username (app_obj.owner r) @ ''/AppData/'' @ app_obj.uid r @ ''/''
                 @ js_str (dir_obj.name createDirData)"
  let ?sub = "subdomainName name' (randomUUID e)"
  let ?s1 = "s\<lparr>calls := calls s @ [?create],
               out := out s @ [Stdout (''Creating app: '' @ dq name' @ ''...'' @ nl),
                               Stdout (''App '' @ dq name' @ '' created successfully!''),
                               Stdout (''AppName: '' @ app_obj.name r @ nl @ ''UID: '' @ app_obj.uid r @ nl
                                         @ ''Username: '' @ username (app_obj.owner r))]\<rparr>"
  let ?s2 = "?s1\<lparr>calls := calls ?s1 @ [?mkdir],
                 out := out ?s1 @ [Stdout (''Creating directory for app '' @ dq name' @ '' with UID: ''
                                             @ dq (randomUUID e) @ '' ...'' @ nl),
                                   Stdout ''Directory created successfully!'',
                                   Stdout (''Directory UID: '' @ dirUid)]\<rparr>"
  let ?s3 = "?s2\<lparr>calls := calls ?s2 @ [host_request ?sub ?root],
                 out := out ?s2 @ [Stdout (''Creating subdomain: '' @ dq ?sub @ ''...'' @ nl),
                                   Stdout ''Subdomain created successfully!'',
                                   Stdout (''Subdomain: '' @ ?sub)]\<rparr>"
  have m: "await_json (mkdir_call e (calls ?s1) ?mkdir) = Inr (Some createDirData)"
    using assms(4) by simp
  have h: "await_json (subdomain_call e (calls ?s2) (host_request ?sub ?root)) = Inr (Some createSubdomainData)"
    using assms(7) by simp
  have u: "await_json (app_call e (calls ?s3) (update_app_request (app_obj.name r) name')) = Inr (Some updateAppData)"
    using assms(9) by simp
  have run: "createApp e name' description url s =
               snd (createApp_update e name' (app_obj.name r) ?sub ?s3)"
    unfolding createApp_created [OF assms(1,2,3)]
              createApp_directory_ok [OF m assms(5,6), of name' "app_obj.name r"]
              createApp_subdomain_ok [OF h assms(8), of "app_obj.name r"]
              createApp_update_ok [OF u assms(10), of ?sub]
    by simp
  have c: "calls (createApp e name' description url s) =
             calls s @ [?create, ?mkdir, host_request ?sub ?root, update_app_request (app_obj.name r) name']"
    unfolding run createApp_update_ok [OF u assms(10), of ?sub] by simp
  have l: "last (out (createApp e name' description url s)) = Stdout (''https://'' @ ?sub @ ''.puter.site'')"
    unfolding run createApp_update_ok [OF u assms(10), of ?sub] by simp
  from c l show ?thesis
    by (simp add: host_request_def update_app_request_def subdomainName_def)
qed

theorem createApp_index_url_witness:
  "calls (createApp demo_env ''app'' [] default_url start) =
     [DriversCall ''puter-apps'' ''create'' (CreateAppArgs ''app'' default_url ''app'' []),
      Mkdir ''/alice/AppData/app-7'' ''app-1b4e28ba-2fa1-11d2-883f-0016d3cca427'',
      DriversCall ''puter-subdomains'' ''create''
        (SubdomainObject ''app-1b4e28ba'' ''/alice/AppData/app-7/app-dir''),
      DriversCall ''puter-apps'' ''update'' (UpdateAppArgs ''app'' ''https://app.puter.site'' ''app'')] \<and>
   last (out (createApp demo_env ''app'' [] default_url start))
     = Stdout ''https://app-1b4e28ba.puter.site'' \<and>
   ''https://app.puter.site'' \<noteq> ''https://app-1b4e28ba.puter.site''"
proof -
  let ?e = demo_env
  let ?created = "\<lparr>success = True, result = Some (demo_app ''app''), error = None\<rparr>"
  let ?dir = "\<lparr>dir_obj.uid = Some ''dir-1'', name = Some ''app-dir''\<rparr>"
  let ?create = "create_app_request ''app'' [] default_url"
  let ?mkdir = "mkdir_request (username (app_obj.owner (demo_app ''app''))) (app_obj.uid (demo_app ''app''))
                  (randomUUID ?e)"
  let ?host = "host_request (subdomainName ''app'' (randomUUID ?e))
                 (''/'' @ username (app_obj.owner (demo_app ''app'')) @ ''/AppData/''
                    @ app_obj.uid (demo_app ''app'') @ ''/'' @ js_str (dir_obj.name ?dir))"
  let ?hosted = "\<lparr>success = True, result = echo_site ?host, error = None\<rparr>"
  have h1: "await_json (app_call ?e (calls start) ?create) = Inr (Some ?created)"
    by (simp add: await_json_def demo_env_def ok_response_def)
  have h4: "await_json (mkdir_call ?e (calls start @ [?create]) ?mkdir) = Inr (Some ?dir)"
    by (simp add: await_json_def demo_env_def ok_response_def)
  have h7: "await_json (subdomain_call ?e (calls start @ [?create, ?mkdir]) ?host) = Inr (Some ?hosted)"
    by (simp add: await_json_def demo_env_def ok_response_def)
  have h9: "await_json (app_call ?e (calls start @ [?create, ?mkdir, ?host])
                          (update_app_request (app_obj.name (demo_app ''app'')) ''app''))
              = Inr (Some ?created)"
    by (simp add: await_json_def demo_env_def ok_response_def)
  have seg: "first_segment ''1b4e28ba-2fa1-11d2-883f-0016d3cca427'' = ''1b4e28ba''"
    by (simp add: first_segment_def)
  have uuid: "randomUUID ?e = ''1b4e28ba-2fa1-11d2-883f-0016d3cca427''"
    by (simp add: demo_env_def)
  from createApp_index_url [OF h1 _ _ h4 _ _ h7 _ h9, of "''dir-1''"]
  show ?thesis
    by (simp add: seg uuid start_def create_app_request_def mkdir_request_def demo_app_def js_str_def)
qed

text \<open>
  Claim C9, as stated, fails: the canonical name comes from the platform (which may append
  a suffix to avoid a collision), and when it is the requested name followed by \<^verbatim>\<open>-\<close> and the
  first segment of the UUID drawn afterwards, the stored \<^verbatim>\<open>index_url\<close> is the URL of the
  subdomain created.
\<close>

theorem createApp_index_url_can_match:
  "calls (createApp dedupe_env ''app'' [] default_url start) =
     [DriversCall ''puter-apps'' ''create'' (CreateAppArgs ''app'' default_url ''app'' []),
      Mkdir ''/alice/AppData/app-7'' ''app-1b4e28ba-2fa1-11d2-883f-0016d3cca427'',
      DriversCall ''puter-subdomains'' ''create''
        (SubdomainObject ''app-1b4e28ba'' ''/alice/AppData/app-7/app-dir''),
      DriversCall ''puter-apps'' ''update''
        (UpdateAppArgs ''app-1b4e28ba'' ''https://app-1b4e28ba.puter.site'' ''app'')] \<and>
   last (out (createApp dedupe_env ''app'' [] default_url start))
     = Stdout ''https://app-1b4e28ba.puter.site''"
  by (simp add: createApp_eval dedupe_env_def demo_env_def)

end
